theory Spec2Isabelle
  imports Main "HOL-Library.AList" "HOL-Library.Sublist"
begin

section \<open>Go values: errors, panics, slices\<close>

text \<open>
  The development embeds \<^verbatim>\<open>client.go\<close> of the req HTTP client. The file under
  verification holds two revisions of \<^verbatim>\<open>client.go\<close>; they agree on every function
  modelled here except \<^verbatim>\<open>Client.Clone\<close>, which is embedded twice below
  (\<open>Clone\<close> for lines 1039-1067, \<open>Clone2\<close> for lines 2060-2081).

  Go pointers are addresses into an explicit heap; a nil pointer, nil map, nil interface or
  nil function is \<open>None\<close>. A Go \<^verbatim>\<open>error\<close> is its message, a nil error is \<open>None\<close>.
  A nil dereference is the outcome \<open>Panic\<close>.
\<close>

type_synonym addr = nat
type_synonym error = string

datatype 'a outcome = Panic | Return 'a

text \<open>
  A slice is nil or a view of the first \<open>n\<close> cells of a backing array (no function of
  \<^verbatim>\<open>client.go\<close> reslices, so a view always starts at cell 0). A backing array has a
  capacity and the cells written so far.
\<close>

datatype slice = NilSlice | Slice addr nat

datatype 'a backing = Backing (capacity: nat) (cells: "'a list")

definition elems :: "(addr \<Rightarrow> 'a backing) \<Rightarrow> slice \<Rightarrow> 'a list" where
  "elems A s = (case s of NilSlice \<Rightarrow> [] | Slice a n \<Rightarrow> take n (cells (A a)))"

definition len :: "slice \<Rightarrow> nat" where
  "len s = (case s of NilSlice \<Rightarrow> 0 | Slice a n \<Rightarrow> n)"

text \<open>
  The capacity \<^verbatim>\<open>append\<close> gives a new backing array, as the Go runtime's
  \<^verbatim>\<open>growslice\<close> computes it (before the allocator rounds it up to a size class):
  the needed length when that exceeds twice the old capacity, twice the old capacity below
  256 cells, and steps of a quarter plus 192 cells above.
\<close>

function growLoop :: "nat \<Rightarrow> nat \<Rightarrow> nat" where
  "growLoop newcap newLen =
     (if 0 < newcap \<and> newcap < newLen
      then growLoop (newcap + (newcap + 3 * 256) div 4) newLen
      else newcap)"
  by pat_completeness auto
termination
  by (relation "measure (\<lambda>(c, n). n - c)") auto

definition growCap :: "nat \<Rightarrow> nat \<Rightarrow> nat" where
  "growCap oldCap newLen =
     (if oldCap + oldCap < newLen then newLen
      else if oldCap < 256 then oldCap + oldCap
      else growLoop oldCap newLen)"

text \<open>
  \<^verbatim>\<open>append(s, xs...)\<close>: writes in place when the capacity suffices (the write is
  visible through every slice of the same backing array), and otherwise copies the viewed
  cells to a fresh backing array at the next unused address.
\<close>

definition appendSlice ::
  "addr \<Rightarrow> (addr \<Rightarrow> 'a backing) \<Rightarrow> slice \<Rightarrow> 'a list \<Rightarrow> slice \<times> addr \<times> (addr \<Rightarrow> 'a backing)" where
  "appendSlice nxt A s xs =
     (if xs = [] then (s, nxt, A)
      else case s of
        NilSlice \<Rightarrow>
          (Slice nxt (length xs), Suc nxt, A(nxt := Backing (growCap 0 (length xs)) xs))
      | Slice a n \<Rightarrow>
          (if n + length xs \<le> capacity (A a)
           then (Slice a (n + length xs), nxt,
                 A(a := Backing (capacity (A a))
                          (take n (cells (A a)) @ xs @ drop (n + length xs) (cells (A a)))))
           else (Slice nxt (n + length xs), Suc nxt,
                 A(nxt := Backing (growCap (capacity (A a)) (n + length xs))
                            (take n (cells (A a)) @ xs)))))"

text \<open>\<^verbatim>\<open>mm := make([]T, len(m)); copy(mm, m)\<close>: a fresh array of exactly that length.\<close>

definition makeCopy ::
  "addr \<Rightarrow> (addr \<Rightarrow> 'a backing) \<Rightarrow> slice \<Rightarrow> slice \<times> addr \<times> (addr \<Rightarrow> 'a backing)" where
  "makeCopy nxt A s =
     (Slice nxt (len s), Suc nxt, A(nxt := Backing (len s) (elems A s)))"

text \<open>
  The backing array of a slice, and the slices that are in order: the backing array is
  allocated and holds the viewed cells.
\<close>

definition sliceAddr :: "slice \<Rightarrow> addr set" where
  "sliceAddr s = (case s of NilSlice \<Rightarrow> {} | Slice a n \<Rightarrow> {a})"

definition validSlice :: "addr \<Rightarrow> (addr \<Rightarrow> 'a backing) \<Rightarrow> slice \<Rightarrow> bool" where
  "validSlice nxt A s =
     (case s of
        NilSlice \<Rightarrow> True
      | Slice a n \<Rightarrow> a < nxt \<and> n \<le> length (cells (A a)))"

section \<open>The data model\<close>

text \<open>
  Types of \<^verbatim>\<open>net/http\<close>, \<^verbatim>\<open>net/url\<close> and \<^verbatim>\<open>crypto/tls\<close>, and the types
  of the repository declared outside \<^verbatim>\<open>client.go\<close> (\<^verbatim>\<open>Transport\<close>,
  \<^verbatim>\<open>Request\<close>, \<^verbatim>\<open>Response\<close>, \<^verbatim>\<open>DumpOptions\<close>), with the fields that
  \<^verbatim>\<open>client.go\<close> reads or writes.
\<close>

record URL =
  Scheme :: string
  Host :: string
  Path :: string
  RawQuery :: string

record Cookie =
  Name :: string
  Value :: string

type_synonym Certificate = string

record TLSConfig =
  Certificates :: "Certificate list"
  RootCAs :: "string list option"

datatype Proxy = ProxyFromEnvironment | ProxyURL URL | ProxyFunc nat

record DumpOptions =
  Output :: nat
  RequestHeader :: bool
  RequestBody :: bool
  ResponseHeader :: bool
  ResponseBody :: bool
  Async :: bool

record Transport =
  TProxy :: "Proxy option"
  TLSClientConfig :: "addr option"
  DisableKeepAlives :: bool
  DisableCompression :: bool
  dump :: "addr option"

text \<open>
  Function values are named: the built-in middleware of the constructor by their Go names,
  functions supplied by the user by a number. The two closures that \<^verbatim>\<open>client.go\<close>
  stores in \<^verbatim>\<open>http.Client.CheckRedirect\<close> are kept with what they capture: the
  client \<^verbatim>\<open>c\<close>, and the policy list of \<^verbatim>\<open>SetRedirectPolicy\<close>.
\<close>

datatype RequestMiddleware =
  parseRequestURL | parseRequestHeader | parseRequestCookie | parseRequestBody
  | UserRequestMiddleware nat

datatype ResponseMiddleware =
  parseResponseBody | handleDownload | UserResponseMiddleware nat

type_synonym RedirectPolicy = nat

datatype CheckRedirectFunc =
  defaultCheckRedirectOf addr
  | redirectPolicyClosure addr "RedirectPolicy option list"

record HttpClient =
  HTransport :: "addr option"
  CheckRedirect :: "CheckRedirectFunc option"
  Jar :: "nat option"
  Timeout :: nat

datatype Context = Background | WithClientTrace Context

record HttpRequest =
  Method :: string
  ReqURL :: "URL option"
  ReqHost :: string
  ReqHeader :: "(string \<times> string list) list"
  Proto :: string
  ProtoMajor :: nat
  ProtoMinor :: nat
  reqCtx :: "Context option"

record HttpResponse =
  StatusCode :: nat
  RespHeader :: "(string \<times> string list) list"
  Body :: "error + string"

datatype Logger = defaultLogger | disableLogger | UserLogger nat

datatype LogCall =
  Debugf string "string list" | Warnf string "string list" | Errorf string "string list"

datatype Codec = json_Marshal | json_Unmarshal | xml_Marshal | xml_Unmarshal | UserCodec nat

text \<open>
  \<^verbatim>\<open>type Client struct\<close>. The maps and slices are references into the heap. The
  fields \<^verbatim>\<open>log\<close>, \<^verbatim>\<open>t\<close> and \<^verbatim>\<open>t2\<close> are named \<open>logger\<close>, \<open>transport\<close>
  and \<open>transport2\<close>; \<open>jsonDecoder\<close> exists in the second revision only.
\<close>

record Client =
  BaseURL :: string
  PathParams :: "addr option"
  QueryParams :: "addr option"
  Headers :: "addr option"
  Cookies :: slice
  FormData :: "addr option"
  DebugLog :: bool
  AllowGetMethodPayload :: bool
  jsonMarshal :: "Codec option"
  jsonUnmarshal :: "Codec option"
  xmlMarshal :: "Codec option"
  xmlUnmarshal :: "Codec option"
  trace :: bool
  outputDirectory :: string
  disableAutoReadResponse :: bool
  scheme :: string
  logger :: "Logger option"
  transport :: "addr option"
  transport2 :: "addr option"
  dumpOptions :: "addr option"
  httpClient :: "addr option"
  jsonDecoder :: "nat option"
  beforeRequest :: slice
  udBeforeRequest :: slice
  afterResponse :: slice

text \<open>
  \<^verbatim>\<open>Request\<close> and \<^verbatim>\<open>Response\<close>. A request is owned by one call and is passed
  by value; its header map and cookie list are the lists of their entries. The fields
  \<^verbatim>\<open>URL\<close>, \<^verbatim>\<open>Headers\<close>, \<^verbatim>\<open>Cookies\<close> and \<^verbatim>\<open>trace\<close> of a request are
  named \<open>RURL\<close>, \<open>RHeaders\<close>, \<open>RCookies\<close> and \<open>hasTrace\<close> (is the trace handle
  set); the fields \<^verbatim>\<open>Request\<close> and \<^verbatim>\<open>Response\<close> of a response are named
  \<open>respRequest\<close> and \<open>respResponse\<close>. \<open>Body\<close> of an \<^verbatim>\<open>http.Response\<close> is what
  reading the stream to its end yields: the bytes, or the error of the read. \<open>body\<close> of a
  response is the buffered copy, \<open>None\<close> while nothing is buffered.
\<close>

record Request =
  client :: "addr option"
  RawRequest :: HttpRequest
  RURL :: string
  RHeaders :: "(string \<times> string list) list"
  RCookies :: "Cookie list"
  isSaveResponse :: bool
  StartTime :: nat
  hasTrace :: bool
  ctx :: "Context option"

record Response =
  respRequest :: "Request option"
  respResponse :: "HttpResponse option"
  body :: "string option"

text \<open>
  The heap: one store per kind of object, one address space (\<open>nextAddr\<close> is the next
  unused address), the package variable \<^verbatim>\<open>defaultClient\<close>, and what the loggers
  were asked to print. \<open>valueMaps\<close> holds the \<^verbatim>\<open>map[string][]string\<close> objects
  (\<^verbatim>\<open>http.Header\<close>, \<^verbatim>\<open>url.Values\<close>), \<open>stringMaps\<close> the
  \<^verbatim>\<open>map[string]string\<close> objects; a map object is its list of entries, one per key.
\<close>

record heap =
  nextAddr :: addr
  clients :: "addr \<Rightarrow> Client"
  transports :: "addr \<Rightarrow> Transport"
  httpClients :: "addr \<Rightarrow> HttpClient"
  tlsConfigs :: "addr \<Rightarrow> TLSConfig"
  dumpOptionsObjs :: "addr \<Rightarrow> DumpOptions"
  valueMaps :: "addr \<Rightarrow> (string \<times> slice) list"
  stringMaps :: "addr \<Rightarrow> (string \<times> string) list"
  stringArrays :: "addr \<Rightarrow> string backing"
  cookieArrays :: "addr \<Rightarrow> addr backing"
  requestMiddlewareArrays :: "addr \<Rightarrow> RequestMiddleware backing"
  responseMiddlewareArrays :: "addr \<Rightarrow> ResponseMiddleware backing"
  defaultClient :: "addr option"
  logged :: "(Logger \<times> LogCall) list"

text \<open>
  Functions of the Go standard library that \<^verbatim>\<open>client.go\<close> calls, as parameters:
  every theorem holds for whatever they compute.
\<close>

record stdlib =
  url_Parse :: "string \<Rightarrow> error + URL"
  url_ParseQuery :: "string \<Rightarrow> (string \<times> string list) list \<times> error option"
  url_String :: "URL \<Rightarrow> string"
  strings_TrimSpace :: "string \<Rightarrow> string"
  tls_LoadX509KeyPair :: "string \<Rightarrow> string \<Rightarrow> error + Certificate"
  CanonicalMIMEHeaderKey :: "string \<Rightarrow> string"
  Request_AddCookie :: "Cookie \<Rightarrow> HttpRequest \<Rightarrow> HttpRequest"

section \<open>The payload rule\<close>

definition MethodGet :: string where "MethodGet = ''GET''"
definition MethodHead :: string where "MethodHead = ''HEAD''"
definition MethodOptions :: string where "MethodOptions = ''OPTIONS''"

text \<open>\<^verbatim>\<open>func (c *Client) EnableAllowGetMethodPayload(a bool) *Client\<close>\<close>

definition EnableAllowGetMethodPayload :: "addr \<Rightarrow> bool \<Rightarrow> heap \<Rightarrow> addr \<times> heap" where
  "EnableAllowGetMethodPayload c a h =
     (c, h\<lparr>clients := (clients h)(c := (clients h c)\<lparr>AllowGetMethodPayload := a\<rparr>)\<rparr>)"

text \<open>\<^verbatim>\<open>func (c *Client) isPayloadForbid(m string) bool\<close>\<close>

definition isPayloadForbid :: "heap \<Rightarrow> addr \<Rightarrow> string \<Rightarrow> bool" where
  "isPayloadForbid h c m =
     ((m = MethodGet \<and> \<not> AllowGetMethodPayload (clients h c)) \<or> m = MethodHead \<or> m = MethodOptions)"


section \<open>The default client\<close>



section \<open>Copying collections\<close>

text \<open>\<^verbatim>\<open>func cloneCookies(cookies []*http.Cookie) []*http.Cookie\<close>\<close>

definition cloneCookies :: "slice \<Rightarrow> heap \<Rightarrow> slice \<times> heap" where
  "cloneCookies cookies h =
     (if len cookies = 0 then (NilSlice, h)
      else case makeCopy (nextAddr h) (cookieArrays h) cookies of
        (c, n, A) \<Rightarrow> (c, h\<lparr>nextAddr := n, cookieArrays := A\<rparr>))"

text \<open>\<^verbatim>\<open>make(http.Header)\<close>, \<^verbatim>\<open>make(urlpkg.Values)\<close>: a fresh empty map.\<close>

definition makeValueMap :: "heap \<Rightarrow> addr \<times> heap" where
  "makeValueMap h =
     (nextAddr h, h\<lparr>nextAddr := Suc (nextAddr h), valueMaps := (valueMaps h)(nextAddr h := [])\<rparr>)"

text \<open>\<^verbatim>\<open>m[key]\<close> of a \<^verbatim>\<open>map[string][]string\<close>: the nil slice when the key is absent.\<close>

definition mapIndex :: "(string \<times> slice) list \<Rightarrow> string \<Rightarrow> slice" where
  "mapIndex m key = (case map_of m key of None \<Rightarrow> NilSlice | Some s \<Rightarrow> s)"

text \<open>
  \<^verbatim>\<open>url.Values.Add\<close>: \<^verbatim>\<open>v[key] = append(v[key], value)\<close>, and
  \<^verbatim>\<open>url.Values.Set\<close>: \<^verbatim>\<open>v[key] = []string{value}\<close>.
  \<^verbatim>\<open>http.Header.Add\<close> and \<^verbatim>\<open>http.Header.Set\<close> do the same at the
  canonical form of the key.
\<close>

definition valuesAdd :: "addr \<Rightarrow> string \<Rightarrow> string \<Rightarrow> heap \<Rightarrow> heap" where
  "valuesAdd m key v h =
     (case appendSlice (nextAddr h) (stringArrays h) (mapIndex (valueMaps h m) key) [v] of
        (s, n, A) \<Rightarrow>
          h\<lparr>nextAddr := n, stringArrays := A,
            valueMaps := (valueMaps h)(m := AList.update key s (valueMaps h m))\<rparr>)"

definition valuesSet :: "addr \<Rightarrow> string \<Rightarrow> string \<Rightarrow> heap \<Rightarrow> heap" where
  "valuesSet m key v h =
     h\<lparr>nextAddr := Suc (nextAddr h),
       stringArrays := (stringArrays h)(nextAddr h := Backing 1 [v]),
       valueMaps := (valueMaps h)(m := AList.update key (Slice (nextAddr h) 1) (valueMaps h m))\<rparr>"

definition headerAdd :: "stdlib \<Rightarrow> addr \<Rightarrow> string \<Rightarrow> string \<Rightarrow> heap \<Rightarrow> heap" where
  "headerAdd L m key v h = valuesAdd m (CanonicalMIMEHeaderKey L key) v h"


text \<open>
  The loops of \<^verbatim>\<open>cloneHeaders\<close> and \<^verbatim>\<open>cloneUrlValues\<close>:
  \<^verbatim>\<open>for k, vs := range hdrs { for _, v := range vs { h.Add(k, v) } }\<close>.
  The inner loop reads cell \<open>i\<close> of \<open>vs\<close> from the heap as it is at that iteration;
  \<open>f\<close> is the canonical form of a key for a header and the identity for
  \<^verbatim>\<open>url.Values\<close>. The entries of the source map are visited in the order of its
  entry list.
\<close>

fun addEach :: "(string \<Rightarrow> string) \<Rightarrow> addr \<Rightarrow> string \<Rightarrow> slice \<Rightarrow> nat list \<Rightarrow> heap \<Rightarrow> heap" where
  "addEach f m k vs [] h = h"
| "addEach f m k vs (i # rest) h =
     addEach f m k vs rest (valuesAdd m (f k) (elems (stringArrays h) vs ! i) h)"

fun cloneEntries :: "(string \<Rightarrow> string) \<Rightarrow> addr \<Rightarrow> (string \<times> slice) list \<Rightarrow> heap \<Rightarrow> heap" where
  "cloneEntries f m [] h = h"
| "cloneEntries f m ((k, vs) # es) h = cloneEntries f m es (addEach f m k vs [0..<len vs] h)"

text \<open>\<^verbatim>\<open>func cloneHeaders(hdrs http.Header) http.Header\<close>\<close>

definition cloneHeaders :: "stdlib \<Rightarrow> addr option \<Rightarrow> heap \<Rightarrow> addr option \<times> heap" where
  "cloneHeaders L hdrs h =
     (case hdrs of
        None \<Rightarrow> (None, h)
      | Some src \<Rightarrow>
          (case makeValueMap h of
             (m, h1) \<Rightarrow> (Some m, cloneEntries (CanonicalMIMEHeaderKey L) m (valueMaps h src) h1)))"

text \<open>\<^verbatim>\<open>func cloneRequestMiddleware(m []RequestMiddleware) []RequestMiddleware\<close>\<close>

definition cloneRequestMiddleware :: "slice \<Rightarrow> heap \<Rightarrow> slice \<times> heap" where
  "cloneRequestMiddleware m h =
     (if len m = 0 then (NilSlice, h)
      else case makeCopy (nextAddr h) (requestMiddlewareArrays h) m of
        (mm, n, A) \<Rightarrow> (mm, h\<lparr>nextAddr := n, requestMiddlewareArrays := A\<rparr>))"

text \<open>\<^verbatim>\<open>func cloneResponseMiddleware(m []ResponseMiddleware) []ResponseMiddleware\<close>\<close>

definition cloneResponseMiddleware :: "slice \<Rightarrow> heap \<Rightarrow> slice \<times> heap" where
  "cloneResponseMiddleware m h =
     (if len m = 0 then (NilSlice, h)
      else case makeCopy (nextAddr h) (responseMiddlewareArrays h) m of
        (mm, n, A) \<Rightarrow> (mm, h\<lparr>nextAddr := n, responseMiddlewareArrays := A\<rparr>))"

text \<open>\<^verbatim>\<open>func cloneUrlValues(v urlpkg.Values) urlpkg.Values\<close>\<close>

definition cloneUrlValues :: "addr option \<Rightarrow> heap \<Rightarrow> addr option \<times> heap" where
  "cloneUrlValues v h =
     (case v of
        None \<Rightarrow> (None, h)
      | Some src \<Rightarrow>
          (case makeValueMap h of
             (vv, h1) \<Rightarrow> (Some vv, cloneEntries (\<lambda>k. k) vv (valueMaps h src) h1)))"

text \<open>\<^verbatim>\<open>func cloneMap(h map[string]string) map[string]string\<close>\<close>

definition cloneMap :: "addr option \<Rightarrow> heap \<Rightarrow> addr option \<times> heap" where
  "cloneMap hm h =
     (case hm of
        None \<Rightarrow> (None, h)
      | Some src \<Rightarrow>
          (Some (nextAddr h),
           h\<lparr>nextAddr := Suc (nextAddr h),
             stringMaps := (stringMaps h)
               (nextAddr h := fold (\<lambda>(k, v) m. AList.update k v m) (stringMaps h src) [])\<rparr>))"


section \<open>Requests and setters\<close>

text \<open>
  \<^verbatim>\<open>func (c *Client) R() *Request\<close>. The receiver is not dereferenced, so it may be
  nil. Every other method dereferences its receiver at once: it takes an address, and its
  package-level wrapper panics when \<^verbatim>\<open>defaultClient\<close> is nil.
\<close>

definition Client_R :: "addr option \<Rightarrow> Request" where
  "Client_R c =
     \<lparr>client = c,
      RawRequest = \<lparr>Method = [], ReqURL = None, ReqHost = [], ReqHeader = [],
                    Proto = ''HTTP/1.1'', ProtoMajor = 1, ProtoMinor = 1, reqCtx = None\<rparr>,
      RURL = [], RHeaders = [], RCookies = [], isSaveResponse = False, StartTime = 0,
      hasTrace = False, ctx = None\<rparr>"


text \<open>A call \<^verbatim>\<open>c.log.Debugf(...)\<close>, \<^verbatim>\<open>c.log.Warnf(...)\<close> or \<^verbatim>\<open>c.log.Errorf(...)\<close>.\<close>

definition logCall :: "addr \<Rightarrow> LogCall \<Rightarrow> heap \<Rightarrow> heap outcome" where
  "logCall c e h =
     (case logger (clients h c) of
        None \<Rightarrow> Panic
      | Some l \<Rightarrow> Return (h\<lparr>logged := logged h @ [(l, e)]\<rparr>))"

text \<open>\<^verbatim>\<open>func (c *Client) DisableAutoReadResponse(disable bool) *Client\<close>\<close>

definition DisableAutoReadResponse :: "addr \<Rightarrow> bool \<Rightarrow> heap \<Rightarrow> addr \<times> heap" where
  "DisableAutoReadResponse c disable h =
     (c, h\<lparr>clients := (clients h)(c := (clients h c)\<lparr>disableAutoReadResponse := disable\<rparr>)\<rparr>)"

text \<open>\<^verbatim>\<open>func (c *Client) SetLogger(log Logger) *Client\<close>\<close>

definition SetLogger :: "addr \<Rightarrow> Logger option \<Rightarrow> heap \<Rightarrow> addr \<times> heap" where
  "SetLogger c log h =
     (case log of
        None \<Rightarrow> (c, h\<lparr>clients := (clients h)(c := (clients h c)\<lparr>logger := Some disableLogger\<rparr>)\<rparr>)
      | Some l \<Rightarrow> (c, h\<lparr>clients := (clients h)(c := (clients h c)\<lparr>logger := Some l\<rparr>)\<rparr>))"

text \<open>\<^verbatim>\<open>func (c *Client) tlsConfig() *tls.Config\<close>\<close>

definition tlsConfig :: "addr \<Rightarrow> heap \<Rightarrow> (addr \<times> heap) outcome" where
  "tlsConfig c h =
     (case transport (clients h c) of
        None \<Rightarrow> Panic
      | Some t \<Rightarrow>
          (case TLSClientConfig (transports h t) of
             Some cfg \<Rightarrow> Return (cfg, h)
           | None \<Rightarrow>
               Return (nextAddr h,
                 h\<lparr>nextAddr := Suc (nextAddr h),
                   tlsConfigs := (tlsConfigs h)(nextAddr h := \<lparr>Certificates = [], RootCAs = None\<rparr>),
                   transports := (transports h)
                     (t := (transports h t)\<lparr>TLSClientConfig := Some (nextAddr h)\<rparr>)\<rparr>)))"

text \<open>\<^verbatim>\<open>func (c *Client) SetCertFromFile(certFile, keyFile string) *Client\<close>\<close>

definition SetCertFromFile :: "stdlib \<Rightarrow> addr \<Rightarrow> string \<Rightarrow> string \<Rightarrow> heap \<Rightarrow> (addr \<times> heap) outcome" where
  "SetCertFromFile L c certFile keyFile h =
     (case tls_LoadX509KeyPair L certFile keyFile of
        Inl err \<Rightarrow>
          (case logCall c (Errorf ''failed to load client cert: %v'' [err]) h of
             Panic \<Rightarrow> Panic
           | Return h' \<Rightarrow> Return (c, h'))
      | Inr cert \<Rightarrow>
          (case tlsConfig c h of
             Panic \<Rightarrow> Panic
           | Return (config, h') \<Rightarrow>
               Return (c,
                 h'\<lparr>tlsConfigs := (tlsConfigs h')
                      (config := (tlsConfigs h' config)
                         \<lparr>Certificates := Certificates (tlsConfigs h' config) @ [cert]\<rparr>)\<rparr>)))"

text \<open>\<^verbatim>\<open>func (c *Client) SetCommonQueryParam(key, value string) *Client\<close>\<close>

definition SetCommonQueryParam :: "addr \<Rightarrow> string \<Rightarrow> string \<Rightarrow> heap \<Rightarrow> addr \<times> heap" where
  "SetCommonQueryParam c key v h =
     (case QueryParams (clients h c) of
        Some m \<Rightarrow> (c, valuesSet m key v h)
      | None \<Rightarrow>
          (case makeValueMap h of
             (m, h1) \<Rightarrow>
               (c, valuesSet m key v
                     (h1\<lparr>clients := (clients h1)(c := (clients h1 c)\<lparr>QueryParams := Some m\<rparr>)\<rparr>))))"

text \<open>\<^verbatim>\<open>func (c *Client) SetCommonQueryString(query string) *Client\<close>\<close>

definition SetCommonQueryString :: "stdlib \<Rightarrow> addr \<Rightarrow> string \<Rightarrow> heap \<Rightarrow> (addr \<times> heap) outcome" where
  "SetCommonQueryString L c query h =
     (case url_ParseQuery L (strings_TrimSpace L query) of
        (params, None) \<Rightarrow>
          (let (m, h1) =
                 (case QueryParams (clients h c) of
                    Some m \<Rightarrow> (m, h)
                  | None \<Rightarrow>
                      (case makeValueMap h of
                         (m, h1) \<Rightarrow>
                           (m, h1\<lparr>clients := (clients h1)
                                    (c := (clients h1 c)\<lparr>QueryParams := Some m\<rparr>)\<rparr>)))
           in Return (c, fold (\<lambda>(p, v) h2. fold (\<lambda>pv h3. valuesAdd m p pv h3) v h2) params h1))
      | (params, Some err) \<Rightarrow>
          (case logCall c (Warnf ''failed to parse query string (%s): %v'' [query, err]) h of
             Panic \<Rightarrow> Panic
           | Return h' \<Rightarrow> Return (c, h')))"

text \<open>\<^verbatim>\<open>func (c *Client) SetCommonCookies(cookies ...*http.Cookie) *Client\<close>\<close>

definition SetCommonCookies :: "addr \<Rightarrow> addr list \<Rightarrow> heap \<Rightarrow> addr \<times> heap" where
  "SetCommonCookies c cookies h =
     (case appendSlice (nextAddr h) (cookieArrays h) (Cookies (clients h c)) cookies of
        (s, n, A) \<Rightarrow>
          (c, h\<lparr>nextAddr := n, cookieArrays := A,
                clients := (clients h)(c := (clients h c)\<lparr>Cookies := s\<rparr>)\<rparr>))"



text \<open>\<^verbatim>\<open>func (c *Client) OnBeforeRequest(m RequestMiddleware) *Client\<close>\<close>

definition OnBeforeRequest :: "addr \<Rightarrow> RequestMiddleware \<Rightarrow> heap \<Rightarrow> addr \<times> heap" where
  "OnBeforeRequest c m h =
     (case appendSlice (nextAddr h) (requestMiddlewareArrays h) (udBeforeRequest (clients h c)) [m] of
        (s, n, A) \<Rightarrow>
          (c, h\<lparr>nextAddr := n, requestMiddlewareArrays := A,
                clients := (clients h)(c := (clients h c)\<lparr>udBeforeRequest := s\<rparr>)\<rparr>))"

text \<open>\<^verbatim>\<open>func (c *Client) OnAfterResponse(m ResponseMiddleware) *Client\<close>\<close>

definition OnAfterResponse :: "addr \<Rightarrow> ResponseMiddleware \<Rightarrow> heap \<Rightarrow> addr \<times> heap" where
  "OnAfterResponse c m h =
     (case appendSlice (nextAddr h) (responseMiddlewareArrays h) (afterResponse (clients h c)) [m] of
        (s, n, A) \<Rightarrow>
          (c, h\<lparr>nextAddr := n, responseMiddlewareArrays := A,
                clients := (clients h)(c := (clients h c)\<lparr>afterResponse := s\<rparr>)\<rparr>))"

text \<open>\<^verbatim>\<open>func (c *Client) SetProxyURL(proxyUrl string) *Client\<close>\<close>

definition SetProxyURL :: "stdlib \<Rightarrow> addr \<Rightarrow> string \<Rightarrow> heap \<Rightarrow> (addr \<times> heap) outcome" where
  "SetProxyURL L c proxyUrl h =
     (case url_Parse L proxyUrl of
        Inl err \<Rightarrow>
          (case logCall c (Errorf ''failed to parse proxy url %s: %v'' [proxyUrl, err]) h of
             Panic \<Rightarrow> Panic
           | Return h' \<Rightarrow> Return (c, h'))
      | Inr u \<Rightarrow>
          (case transport (clients h c) of
             None \<Rightarrow> Panic
           | Some t \<Rightarrow>
               Return (c, h\<lparr>transports := (transports h)
                               (t := (transports h t)\<lparr>TProxy := Some (ProxyURL u)\<rparr>)\<rparr>)))"

text \<open>
  \<^verbatim>\<open>func (c *Client) getDumpOptions() *DumpOptions\<close>. The options that
  \<^verbatim>\<open>newDefaultDumpOptions()\<close> returns (it is declared outside \<^verbatim>\<open>client.go\<close>) are
  the parameter \<open>D\<close>.
\<close>

definition getDumpOptions :: "DumpOptions \<Rightarrow> addr \<Rightarrow> heap \<Rightarrow> addr \<times> heap" where
  "getDumpOptions D c h =
     (case dumpOptions (clients h c) of
        Some opts \<Rightarrow> (opts, h)
      | None \<Rightarrow>
          (nextAddr h,
           h\<lparr>nextAddr := Suc (nextAddr h),
             dumpOptionsObjs := (dumpOptionsObjs h)(nextAddr h := D),
             clients := (clients h)(c := (clients h c)\<lparr>dumpOptions := Some (nextAddr h)\<rparr>)\<rparr>))"

text \<open>
  Modelled from the spec: \<^verbatim>\<open>Transport.EnableDump\<close> (declared outside
  \<^verbatim>\<open>client.go\<close>), the "dump enable hook" of the transport: the dump of the transport
  is started with the options given. \<^verbatim>\<open>t.dump\<close>, nil until then, is identified with
  the options it holds (\<^verbatim>\<open>c.t.dump.DumpOptions\<close> in \<^verbatim>\<open>SetDumpOptions\<close>).
\<close>

definition Transport_EnableDump :: "addr \<Rightarrow> addr \<Rightarrow> heap \<Rightarrow> heap" where
  "Transport_EnableDump t opts h =
     h\<lparr>transports := (transports h)(t := (transports h t)\<lparr>dump := Some opts\<rparr>)\<rparr>"

text \<open>
  \<^verbatim>\<open>func (c *Client) enableDump()\<close>: \<^verbatim>\<open>c.t.dump\<close> dereferences the transport of
  the client, and panics when the client has none.
\<close>

definition enableDump :: "DumpOptions \<Rightarrow> addr \<Rightarrow> heap \<Rightarrow> heap outcome" where
  "enableDump D c h =
     (case transport (clients h c) of
        None \<Rightarrow> Panic
      | Some t \<Rightarrow>
          if dump (transports h t) \<noteq> None then Return h
          else (case getDumpOptions D c h of (opts, h1) \<Rightarrow> Return (Transport_EnableDump t opts h1)))"




section \<open>Constructor and clone\<close>

definition alloc :: "heap \<Rightarrow> addr \<times> heap" where
  "alloc h = (nextAddr h, h\<lparr>nextAddr := Suc (nextAddr h)\<rparr>)"

text \<open>
  Modelled from the spec: \<^verbatim>\<open>Transport.Clone\<close> (the transport is declared outside
  \<^verbatim>\<open>client.go\<close>). "Clone() produces a new instance whose transport is a structurally
  independent copy": a fresh transport with the same settings and a TLS configuration of
  its own.
\<close>

definition Transport_Clone :: "addr \<Rightarrow> heap \<Rightarrow> addr \<times> heap" where
  "Transport_Clone t h =
     (case TLSClientConfig (transports h t) of
        None \<Rightarrow>
          (nextAddr h,
           h\<lparr>nextAddr := Suc (nextAddr h),
             transports := (transports h)(nextAddr h := transports h t)\<rparr>)
      | Some cfg \<Rightarrow>
          (Suc (nextAddr h),
           h\<lparr>nextAddr := Suc (Suc (nextAddr h)),
             tlsConfigs := (tlsConfigs h)(nextAddr h := tlsConfigs h cfg),
             transports := (transports h)
               (Suc (nextAddr h) := (transports h t)\<lparr>TLSClientConfig := Some (nextAddr h)\<rparr>)\<rparr>))"

text \<open>
  Modelled from the spec: \<^verbatim>\<open>http2ConfigureTransports\<close> (declared outside
  \<^verbatim>\<open>client.go\<close>) gives the transport an HTTP/2 transport of its own.
\<close>

definition http2ConfigureTransports :: "addr \<Rightarrow> heap \<Rightarrow> addr \<times> heap" where
  "http2ConfigureTransports t h = alloc h"

text \<open>
  Modelled from the spec: \<^verbatim>\<open>DumpOptions.Clone\<close> (declared outside \<^verbatim>\<open>client.go\<close>):
  nil for nil, else a copy of the options.
\<close>

definition DumpOptions_Clone :: "addr option \<Rightarrow> heap \<Rightarrow> addr option \<times> heap" where
  "DumpOptions_Clone d h =
     (case d of
        None \<Rightarrow> (None, h)
      | Some a \<Rightarrow>
          (Some (nextAddr h),
           h\<lparr>nextAddr := Suc (nextAddr h),
             dumpOptionsObjs := (dumpOptionsObjs h)(nextAddr h := dumpOptionsObjs h a)\<rparr>))"

text \<open>The zero value of \<^verbatim>\<open>Client\<close>.\<close>

definition zeroClient :: Client where
  "zeroClient =
     \<lparr>BaseURL = [], PathParams = None, QueryParams = None, Headers = None, Cookies = NilSlice,
      FormData = None, DebugLog = False, AllowGetMethodPayload = False, jsonMarshal = None,
      jsonUnmarshal = None, xmlMarshal = None, xmlUnmarshal = None, trace = False,
      outputDirectory = [], disableAutoReadResponse = False, scheme = [], logger = None,
      transport = None, transport2 = None, dumpOptions = None, httpClient = None,
      jsonDecoder = None, beforeRequest = NilSlice, udBeforeRequest = NilSlice,
      afterResponse = NilSlice\<rparr>"

text \<open>
  \<^verbatim>\<open>func C() *Client\<close>. The objects are allocated in the order of the source: the
  transport, its HTTP/2 transport, the cookie jar, the \<^verbatim>\<open>http.Client\<close>, the two
  middleware lists and the client. (\<^verbatim>\<open>t.Debugf\<close>, a field of the transport that no
  function here reads, is left out.)
\<close>

definition C :: "heap \<Rightarrow> addr \<times> heap" where
  "C h =
     (let t = nextAddr h; t2 = t + 1; jar = t + 2; hc = t + 3; br = t + 4; ar = t + 5; c = t + 6
      in (c,
          h\<lparr>nextAddr := t + 7,
            transports := (transports h)
              (t := \<lparr>TProxy = Some ProxyFromEnvironment, TLSClientConfig = None,
                     DisableKeepAlives = False, DisableCompression = False, dump = None\<rparr>),
            httpClients := (httpClients h)
              (hc := \<lparr>HTransport = Some t, CheckRedirect = Some (defaultCheckRedirectOf c),
                      Jar = Some jar, Timeout = 120000000000\<rparr>),
            requestMiddlewareArrays := (requestMiddlewareArrays h)
              (br := Backing 4 [parseRequestURL, parseRequestHeader, parseRequestCookie,
                                parseRequestBody]),
            responseMiddlewareArrays := (responseMiddlewareArrays h)
              (ar := Backing 2 [parseResponseBody, handleDownload]),
            clients := (clients h)
              (c := zeroClient
                 \<lparr>beforeRequest := Slice br 4, afterResponse := Slice ar 2,
                  logger := Some defaultLogger, httpClient := Some hc, transport := Some t,
                  transport2 := Some t2, jsonMarshal := Some json_Marshal,
                  jsonUnmarshal := Some json_Unmarshal, xmlMarshal := Some xml_Marshal,
                  xmlUnmarshal := Some xml_Unmarshal\<rparr>)\<rparr>))"

text \<open>
  \<^verbatim>\<open>func (c *Client) Clone() *Client\<close>, lines 1039-1067: the struct is copied and
  every collection field is replaced by a copy.
\<close>

definition Clone :: "stdlib \<Rightarrow> addr \<Rightarrow> heap \<Rightarrow> (addr \<times> heap) outcome" where
  "Clone L c h =
     (case transport (clients h c) of
        None \<Rightarrow> Panic
      | Some ct \<Rightarrow>
     (case httpClient (clients h c) of
        None \<Rightarrow> Panic
      | Some chc \<Rightarrow>
     (case Transport_Clone ct h of (t, h1) \<Rightarrow>
     (case http2ConfigureTransports t h1 of (t2, h2) \<Rightarrow>
     (case alloc h2 of (hcopy, h3) \<Rightarrow>
     (case alloc h3 of (cc, h4) \<Rightarrow>
     (case cloneHeaders L (Headers (clients h c)) h4 of (hdrs, h5) \<Rightarrow>
     (case cloneCookies (Cookies (clients h c)) h5 of (cks, h6) \<Rightarrow>
     (case cloneMap (PathParams (clients h c)) h6 of (pps, h7) \<Rightarrow>
     (case cloneUrlValues (QueryParams (clients h c)) h7 of (qps, h8) \<Rightarrow>
     (case cloneUrlValues (FormData (clients h c)) h8 of (fd, h9) \<Rightarrow>
     (case cloneRequestMiddleware (beforeRequest (clients h c)) h9 of (br, h10) \<Rightarrow>
     (case cloneRequestMiddleware (udBeforeRequest (clients h c)) h10 of (ud, h11) \<Rightarrow>
     (case cloneResponseMiddleware (afterResponse (clients h c)) h11 of (ar, h12) \<Rightarrow>
     (case DumpOptions_Clone (dumpOptions (clients h c)) h12 of (dopts, h13) \<Rightarrow>
        Return (cc,
          h13\<lparr>httpClients := (httpClients h13)
                 (hcopy := (httpClients h chc)\<lparr>HTransport := Some t\<rparr>),
              clients := (clients h13)
                 (cc := (clients h c)
                    \<lparr>httpClient := Some hcopy, transport := Some t, transport2 := Some t2,
                     Headers := hdrs, Cookies := cks, PathParams := pps, QueryParams := qps,
                     FormData := fd, beforeRequest := br, udBeforeRequest := ud,
                     afterResponse := ar, dumpOptions := dopts\<rparr>)\<rparr>))))))))))))))))"

text \<open>
  \<^verbatim>\<open>func (c *Client) Clone() *Client\<close>, lines 2060-2081: a new struct with the listed
  fields only; \<^verbatim>\<open>beforeRequest\<close> and \<^verbatim>\<open>udBeforeRequest\<close> are the slices of
  \<^verbatim>\<open>c\<close> themselves, and the fields left out are zero.
\<close>

definition Clone2 :: "stdlib \<Rightarrow> addr \<Rightarrow> heap \<Rightarrow> (addr \<times> heap) outcome" where
  "Clone2 L c h =
     (case transport (clients h c) of
        None \<Rightarrow> Panic
      | Some ct \<Rightarrow>
     (case httpClient (clients h c) of
        None \<Rightarrow> Panic
      | Some chc \<Rightarrow>
     (case Transport_Clone ct h of (t, h1) \<Rightarrow>
     (case http2ConfigureTransports t h1 of (t2, h2) \<Rightarrow>
     (case alloc h2 of (cc, h3) \<Rightarrow>
     (case DumpOptions_Clone (dumpOptions (clients h c)) h3 of (dopts, h4) \<Rightarrow>
     (case cloneHeaders L (Headers (clients h c)) h4 of (hdrs, h5) \<Rightarrow>
     (case cloneMap (PathParams (clients h c)) h5 of (pps, h6) \<Rightarrow>
     (case cloneUrlValues (QueryParams (clients h c)) h6 of (qps, h7) \<Rightarrow>
     (case alloc h7 of (new, h8) \<Rightarrow>
        Return (new,
          h8\<lparr>httpClients := (httpClients h8)
                (cc := (httpClients h chc)\<lparr>HTransport := Some t\<rparr>),
             clients := (clients h8)
                (new := zeroClient
                   \<lparr>httpClient := Some cc, transport := Some t, transport2 := Some t2,
                    dumpOptions := dopts, jsonDecoder := jsonDecoder (clients h c),
                    Headers := hdrs, PathParams := pps, QueryParams := qps,
                    BaseURL := BaseURL (clients h c), scheme := scheme (clients h c),
                    logger := logger (clients h c),
                    beforeRequest := beforeRequest (clients h c),
                    udBeforeRequest := udBeforeRequest (clients h c),
                    disableAutoReadResponse := disableAutoReadResponse (clients h c)\<rparr>)\<rparr>)))))))))))"

section \<open>Redirect policy\<close>

text \<open>
  The block \<^verbatim>\<open>if c.DebugLog { c.log.Debugf("<redirect> %s %s", req.Method, req.URL.String()) }\<close>
  of both redirect functions.
\<close>

definition debugRedirect :: "stdlib \<Rightarrow> addr \<Rightarrow> HttpRequest \<Rightarrow> heap \<Rightarrow> heap outcome" where
  "debugRedirect L c req h =
     (if DebugLog (clients h c)
      then (case ReqURL req of
              None \<Rightarrow> Panic
            | Some u \<Rightarrow> logCall c (Debugf ''<redirect> %s %s'' [Method req, url_String L u]) h)
      else Return h)"

text \<open>\<^verbatim>\<open>func (c *Client) defaultCheckRedirect(req *http.Request, via []*http.Request) error\<close>\<close>

definition defaultCheckRedirect ::
  "stdlib \<Rightarrow> addr \<Rightarrow> HttpRequest \<Rightarrow> HttpRequest list \<Rightarrow> heap \<Rightarrow> (error option \<times> heap) outcome" where
  "defaultCheckRedirect L c req via h =
     (if length via \<ge> 10 then Return (Some ''stopped after 10 redirects'', h)
      else case debugRedirect L c req h of
             Panic \<Rightarrow> Panic
           | Return h' \<Rightarrow> Return (None, h'))"






section \<open>The request pipeline\<close>

text \<open>
  What a call works with besides the client: the middleware (the built-in ones are declared
  outside \<^verbatim>\<open>client.go\<close>, the others are the user's), the exchange
  \<^verbatim>\<open>c.httpClient.Do\<close>, the read of the body \<^verbatim>\<open>resp.ToBytes()\<close> (declared
  outside \<^verbatim>\<open>client.go\<close>) and the clock, each with its effect on a world \<open>'w\<close>
  outside the client. A middleware gets the request (or response) and returns it as it leaves
  it; \<^verbatim>\<open>ToBytes\<close> gets the response and returns its two results and the response as it
  leaves it. Nothing is assumed of what they compute. The heap of clients is the same
  throughout a call: a middleware that registers middleware on the client while the call
  runs, and a nil middleware, are outside the model.
\<close>

record 'w collaborators =
  requestStage :: "RequestMiddleware \<Rightarrow> Request \<Rightarrow> 'w \<Rightarrow> error option \<times> Request \<times> 'w"
  responseStage :: "ResponseMiddleware \<Rightarrow> Response \<Rightarrow> 'w \<Rightarrow> error option \<times> Response \<times> 'w"
  httpClientDo :: "HttpClient \<Rightarrow> HttpRequest \<Rightarrow> 'w \<Rightarrow> (error + HttpResponse) \<times> 'w"
  ToBytes :: "Response \<Rightarrow> 'w \<Rightarrow> (string \<times> error option) \<times> Response \<times> 'w"
  timeNow :: "'w \<Rightarrow> nat"

text \<open>
  Modelled from the spec: \<^verbatim>\<open>removeEmptyPort\<close> (declared outside \<^verbatim>\<open>client.go\<close>).
  "Normalize an empty port out of the host": a host that ends in a colon loses that colon.
\<close>

definition removeEmptyPort :: "string \<Rightarrow> string" where
  "removeEmptyPort host = (if host \<noteq> [] \<and> last host = CHR '':'' then butlast host else host)"

text \<open>\<^verbatim>\<open>func setRequestURL(r *http.Request, url string) error\<close>\<close>

definition setRequestURL :: "stdlib \<Rightarrow> HttpRequest \<Rightarrow> string \<Rightarrow> HttpRequest \<times> error option" where
  "setRequestURL L r url =
     (case url_Parse L url of
        Inl err \<Rightarrow> (r, Some err)
      | Inr u \<Rightarrow>
          (r\<lparr>ReqURL := Some (u\<lparr>Host := removeEmptyPort (Host u)\<rparr>),
             ReqHost := removeEmptyPort (Host u)\<rparr>, None))"

text \<open>\<^verbatim>\<open>http.Header.Add\<close> on the header of a request.\<close>

definition Header_Add ::
  "stdlib \<Rightarrow> (string \<times> string list) list \<Rightarrow> string \<Rightarrow> string \<Rightarrow> (string \<times> string list) list" where
  "Header_Add L hdr key v =
     AList.update (CanonicalMIMEHeaderKey L key)
       ((case map_of hdr (CanonicalMIMEHeaderKey L key) of None \<Rightarrow> [] | Some vs \<Rightarrow> vs) @ [v]) hdr"

text \<open>\<^verbatim>\<open>func setRequestHeaderAndCookie(r *Request)\<close>\<close>

definition setRequestHeaderAndCookie :: "stdlib \<Rightarrow> Request \<Rightarrow> Request" where
  "setRequestHeaderAndCookie L r =
     r\<lparr>RawRequest :=
         fold (\<lambda>cookie raw. Request_AddCookie L cookie raw) (RCookies r)
           (fold (\<lambda>(k, vs) raw.
                    fold (\<lambda>v raw'. raw'\<lparr>ReqHeader := Header_Add L (ReqHeader raw') k v\<rparr>) vs raw)
              (RHeaders r) (RawRequest r))\<rparr>"

text \<open>
  \<^verbatim>\<open>func setTrace(r *Request)\<close>. \<^verbatim>\<open>r.Context()\<close> is the context of the request,
  the background context when none is set; \<^verbatim>\<open>createContext\<close> wraps it.
\<close>

definition setTrace :: "heap \<Rightarrow> Request \<Rightarrow> Request outcome" where
  "setTrace h r =
     (let traced = (\<lambda>r'. let ctx' = WithClientTrace (case ctx r' of None \<Rightarrow> Background | Some x \<Rightarrow> x)
                          in r'\<lparr>ctx := Some ctx',
                                RawRequest := (RawRequest r')\<lparr>reqCtx := Some ctx'\<rparr>\<rparr>)
      in if \<not> hasTrace r
         then (case client r of
                 None \<Rightarrow> Panic
               | Some rc \<Rightarrow>
                   if trace (clients h rc) then Return (traced (r\<lparr>hasTrace := True\<rparr>))
                   else Return r)
         else Return (traced r))"

text \<open>\<^verbatim>\<open>func setupRequest(r *Request)\<close>: the error of \<^verbatim>\<open>setRequestURL\<close> is dropped.\<close>

definition setupRequest :: "stdlib \<Rightarrow> heap \<Rightarrow> Request \<Rightarrow> Request outcome" where
  "setupRequest L h r =
     setTrace h
       (setRequestHeaderAndCookie L
          (r\<lparr>RawRequest := fst (setRequestURL L (RawRequest r) (RURL r))\<rparr>))"

text \<open>
  The loops \<^verbatim>\<open>for _, f := range ... { if err = f(r.client, r); err != nil { return } }\<close>
  of \<^verbatim>\<open>do\<close>, over request middleware and over response middleware.
\<close>

fun runRequestMiddleware ::
  "'w collaborators \<Rightarrow> RequestMiddleware list \<Rightarrow> Request \<Rightarrow> 'w \<Rightarrow> error option \<times> Request \<times> 'w" where
  "runRequestMiddleware E [] r w = (None, r, w)"
| "runRequestMiddleware E (f # fs) r w =
     (case requestStage E f r w of
        (Some err, r', w') \<Rightarrow> (Some err, r', w')
      | (None, r', w') \<Rightarrow> runRequestMiddleware E fs r' w')"

fun runResponseMiddleware ::
  "'w collaborators \<Rightarrow> ResponseMiddleware list \<Rightarrow> Response \<Rightarrow> 'w \<Rightarrow> error option \<times> Response \<times> 'w" where
  "runResponseMiddleware E [] resp w = (None, resp, w)"
| "runResponseMiddleware E (f # fs) resp w =
     (case responseStage E f resp w of
        (Some err, resp', w') \<Rightarrow> (Some err, resp', w')
      | (None, resp', w') \<Rightarrow> runResponseMiddleware E fs resp' w')"

text \<open>
  \<^verbatim>\<open>func (c *Client) do(r *Request) (resp *Response, err error)\<close>, in two parts.
  \<open>dispatch\<close> is lines 1126-1149: the two loops over request middleware,
  \<^verbatim>\<open>setupRequest\<close>, the debug line, the start time and the exchange. It ends in an
  early return of \<^verbatim>\<open>do\<close> (\<open>Aborted\<close>, with the results of \<^verbatim>\<open>do\<close>) or with the
  response of the transport (\<open>Sent\<close>). \<open>deliver\<close> is lines 1151-1166, with the loop
  over response middleware as \<open>runAfterResponse\<close>. The results of
  \<^verbatim>\<open>do\<close> are the response, the error, and what the call left behind: the request, the
  heap (with the debug line logged) and the world.
\<close>

type_synonym 'w doResult = "Response \<times> error option \<times> Request \<times> heap \<times> 'w"

datatype 'w dispatched = Aborted "'w doResult" | Sent Request heap HttpResponse 'w

definition dispatch ::
  "stdlib \<Rightarrow> 'w collaborators \<Rightarrow> addr \<Rightarrow> Request \<Rightarrow> heap \<Rightarrow> 'w \<Rightarrow> 'w dispatched outcome" where
  "dispatch L E c r h w =
     (let resp = \<lparr>respRequest = None, respResponse = None, body = None\<rparr> in
      case client r of
        None \<Rightarrow> Panic
      | Some rc \<Rightarrow>
     (case runRequestMiddleware E
             (elems (requestMiddlewareArrays h) (udBeforeRequest (clients h rc))) r w of
        (Some err, r1, w1) \<Rightarrow> Return (Aborted (resp, Some err, r1, h, w1))
      | (None, r1, w1) \<Rightarrow>
     (case client r1 of
        None \<Rightarrow> Panic
      | Some rc1 \<Rightarrow>
     (case runRequestMiddleware E
             (elems (requestMiddlewareArrays h) (beforeRequest (clients h rc1))) r1 w1 of
        (Some err, r2, w2) \<Rightarrow> Return (Aborted (resp, Some err, r2, h, w2))
      | (None, r2, w2) \<Rightarrow>
     (case setupRequest L h r2 of
        Panic \<Rightarrow> Panic
      | Return r3 \<Rightarrow>
     (case (if DebugLog (clients h c)
            then (case ReqURL (RawRequest r3) of
                    None \<Rightarrow> Panic
                  | Some u \<Rightarrow>
                      logCall c (Debugf ''%s %s'' [Method (RawRequest r3), url_String L u]) h)
            else Return h) of
        Panic \<Rightarrow> Panic
      | Return h1 \<Rightarrow>
     (case httpClient (clients h c) of
        None \<Rightarrow> Panic
      | Some hc \<Rightarrow>
     (case httpClientDo E (httpClients h hc) (RawRequest r3) w2 of
        (Inl err, w3) \<Rightarrow>
          Return (Aborted (resp, Some err, r3\<lparr>StartTime := timeNow E w2\<rparr>, h1, w3))
      | (Inr httpResponse, w3) \<Rightarrow>
          Return (Sent (r3\<lparr>StartTime := timeNow E w2\<rparr>) h1 httpResponse w3)))))))))"

definition runAfterResponse ::
  "'w collaborators \<Rightarrow> Request \<Rightarrow> heap \<Rightarrow> Response \<Rightarrow> 'w \<Rightarrow> 'w doResult outcome" where
  "runAfterResponse E r h resp w =
     (case client r of
        None \<Rightarrow> Panic
      | Some rc \<Rightarrow>
          (case runResponseMiddleware E
                  (elems (responseMiddlewareArrays h) (afterResponse (clients h rc))) resp w of
             (err, resp', w') \<Rightarrow> Return (resp', err, r, h, w')))"

definition deliver ::
  "'w collaborators \<Rightarrow> addr \<Rightarrow> Request \<Rightarrow> heap \<Rightarrow> HttpResponse \<Rightarrow> 'w \<Rightarrow> 'w doResult outcome" where
  "deliver E c r h httpResponse w =
     (let resp = \<lparr>respRequest = Some r, respResponse = Some httpResponse, body = None\<rparr>
      in if \<not> disableAutoReadResponse (clients h c) \<and> \<not> isSaveResponse r
         then (case ToBytes E resp w of
                 ((bs, Some err), resp', w') \<Rightarrow> Return (resp', Some err, r, h, w')
               | ((bs, None), resp', w') \<Rightarrow> runAfterResponse E r h resp' w')
         else runAfterResponse E r h resp w)"

definition do ::
  "stdlib \<Rightarrow> 'w collaborators \<Rightarrow> addr \<Rightarrow> Request \<Rightarrow> heap \<Rightarrow> 'w \<Rightarrow> 'w doResult outcome" where
  "do L E c r h w =
     (case dispatch L E c r h w of
        Panic \<Rightarrow> Panic
      | Return (Aborted res) \<Rightarrow> Return res
      | Return (Sent r' h' httpResponse w') \<Rightarrow> deliver E c r' h' httpResponse w')"

text \<open>
  Test doubles that record the order of the calls: each middleware and the exchange, run
  as \<open>E\<close> gives them, also note that they were called. The read of the body runs as
  \<open>E\<close> gives it.
\<close>

datatype event = EvBefore RequestMiddleware | EvDispatch | EvAfter ResponseMiddleware

definition recording :: "'w collaborators \<Rightarrow> ('w \<times> event list) collaborators" where
  "recording E =
     \<lparr>requestStage = (\<lambda>m r (w, evs).
        case requestStage E m r w of (err, r', w') \<Rightarrow> (err, r', (w', evs @ [EvBefore m]))),
      responseStage = (\<lambda>m resp (w, evs).
        case responseStage E m resp w of (err, resp', w') \<Rightarrow> (err, resp', (w', evs @ [EvAfter m]))),
      httpClientDo = (\<lambda>hc raw (w, evs).
        case httpClientDo E hc raw w of (res, w') \<Rightarrow> (res, (w', evs @ [EvDispatch]))),
      ToBytes = (\<lambda>resp (w, evs).
        case ToBytes E resp w of (res, resp', w') \<Rightarrow> (res, resp', (w', evs))),
      timeNow = (\<lambda>(w, evs). timeNow E w)\<rparr>"


text \<open>
  A registration of middleware by the user: \<^verbatim>\<open>c.OnBeforeRequest(m)\<close> or
  \<^verbatim>\<open>c.OnAfterResponse(m)\<close>.
\<close>

datatype registration = Before RequestMiddleware | After ResponseMiddleware

fun register :: "addr \<Rightarrow> registration \<Rightarrow> heap \<Rightarrow> heap" where
  "register c (Before m) h = snd (OnBeforeRequest c m h)"
| "register c (After m) h = snd (OnAfterResponse c m h)"

fun beforeOf :: "registration list \<Rightarrow> RequestMiddleware list" where
  "beforeOf [] = []"
| "beforeOf (Before m # regs) = m # beforeOf regs"
| "beforeOf (After m # regs) = beforeOf regs"

fun afterOf :: "registration list \<Rightarrow> ResponseMiddleware list" where
  "afterOf [] = []"
| "afterOf (Before m # regs) = afterOf regs"
| "afterOf (After m # regs) = m # afterOf regs"

text \<open>
  The middleware lists of a client are in order: each is a slice in order, and the list of
  the user's request middleware has a backing array of its own.
\<close>

definition stagesValid :: "heap \<Rightarrow> addr \<Rightarrow> bool" where
  "stagesValid h c =
     (validSlice (nextAddr h) (requestMiddlewareArrays h) (udBeforeRequest (clients h c))
      \<and> validSlice (nextAddr h) (requestMiddlewareArrays h) (beforeRequest (clients h c))
      \<and> sliceAddr (beforeRequest (clients h c)) \<inter> sliceAddr (udBeforeRequest (clients h c)) = {}
      \<and> validSlice (nextAddr h) (responseMiddlewareArrays h) (afterResponse (clients h c)))"



section \<open>Program start and example inputs\<close>

text \<open>
  The heap before anything is allocated, and the heap after package initialisation:
  \<^verbatim>\<open>var defaultClient *Client = C()\<close>.
\<close>

definition emptyHeap :: heap where
  "emptyHeap =
     \<lparr>nextAddr = 0,
      clients = (\<lambda>a. zeroClient),
      transports = (\<lambda>a. \<lparr>TProxy = None, TLSClientConfig = None, DisableKeepAlives = False,
                           DisableCompression = False, dump = None\<rparr>),
      httpClients = (\<lambda>a. \<lparr>HTransport = None, CheckRedirect = None, Jar = None, Timeout = 0\<rparr>),
      tlsConfigs = (\<lambda>a. \<lparr>Certificates = [], RootCAs = None\<rparr>),
      dumpOptionsObjs = (\<lambda>a. \<lparr>Output = 0, RequestHeader = False, RequestBody = False,
                                ResponseHeader = False, ResponseBody = False, Async = False\<rparr>),
      valueMaps = (\<lambda>a. []),
      stringMaps = (\<lambda>a. []),
      stringArrays = (\<lambda>a. Backing 0 []),
      cookieArrays = (\<lambda>a. Backing 0 []),
      requestMiddlewareArrays = (\<lambda>a. Backing 0 []),
      responseMiddlewareArrays = (\<lambda>a. Backing 0 []),
      defaultClient = None,
      logged = []\<rparr>"

definition initialHeap :: heap where
  "initialHeap = (case C emptyHeap of (c, h) \<Rightarrow> h\<lparr>defaultClient := Some c\<rparr>)"

text \<open>
  Inputs for the examples: a standard library that rejects the URL \<open>%\<close>, the query
  \<open>;\<close> and an empty certificate file name; collaborators whose middleware succeed, except
  that user middleware 13 fails, whose exchange answers with a body of two bytes, and whose
  \<^verbatim>\<open>ToBytes\<close> buffers the bytes of the stream when the stream can be read to its end
  and returns the error of the stream when it cannot.
\<close>

definition exampleStdlib :: stdlib where
  "exampleStdlib =
     \<lparr>url_Parse = (\<lambda>s. if s = ''%'' then Inl ''invalid URL escape''
                        else Inr \<lparr>Scheme = ''http'', Host = s, Path = [], RawQuery = []\<rparr>),
      url_ParseQuery = (\<lambda>s. if s = '';'' then ([], Some ''invalid semicolon separator in query'')
                             else ([(s, [''1''])], None)),
      url_String = Host,
      strings_TrimSpace = (\<lambda>s. s),
      tls_LoadX509KeyPair = (\<lambda>certFile keyFile.
         if certFile = [] then Inl ''open : no such file or directory'' else Inr certFile),
      CanonicalMIMEHeaderKey = (\<lambda>s. s),
      Request_AddCookie = (\<lambda>cookie raw. raw)\<rparr>"

definition exampleResponse :: HttpResponse where
  "exampleResponse = \<lparr>StatusCode = 200, RespHeader = [], Body = Inr ''ok''\<rparr>"

definition exampleCollaborators :: "unit collaborators" where
  "exampleCollaborators =
     \<lparr>requestStage = (\<lambda>m r w.
        if m = UserRequestMiddleware 13 then (Some ''refused'', r, w) else (None, r, w)),
      responseStage = (\<lambda>m resp w. (None, resp, w)),
      httpClientDo = (\<lambda>hc raw w. (Inr exampleResponse, w)),
      ToBytes = (\<lambda>resp w.
        case respResponse resp of
          None \<Rightarrow> (([], None), resp, w)
        | Some raw \<Rightarrow>
            (case Body raw of
               Inl err \<Rightarrow> (([], Some err), resp, w)
             | Inr bs \<Rightarrow> ((bs, None), resp\<lparr>body := Some bs\<rparr>, w))),
      timeNow = (\<lambda>w. 0)\<rparr>"

text \<open>
  Example heaps: a client made by \<^verbatim>\<open>C()\<close> at program start (it is client 6); the same
  with a request middleware that fails; with one middleware of the user on each side; and
  with three request middleware of the user.
\<close>

definition exampleHeap :: heap where
  "exampleHeap = snd (C emptyHeap)"

definition refusingHeap :: heap where
  "refusingHeap = fold (register 6) [Before (UserRequestMiddleware 13)] exampleHeap"

definition registeredHeap :: heap where
  "registeredHeap =
     fold (register 6) [Before (UserRequestMiddleware 7), After (UserResponseMiddleware 8)]
       exampleHeap"

definition threeStagesHeap :: heap where
  "threeStagesHeap =
     fold (register 6)
       [Before (UserRequestMiddleware 1), Before (UserRequestMiddleware 2),
        Before (UserRequestMiddleware 3)] exampleHeap"

text \<open>
  The user's request middleware of a client, as a call would run them.
\<close>

definition userRequestMiddleware :: "heap \<Rightarrow> addr \<Rightarrow> RequestMiddleware list" where
  "userRequestMiddleware h c = elems (requestMiddlewareArrays h) (udBeforeRequest (clients h c))"

text \<open>
  The heap after \<^verbatim>\<open>cc := c.Clone()\<close> on client 6 of \<open>threeStagesHeap\<close>, for
  \<^verbatim>\<open>Clone\<close> of lines 1039-1067 and for \<^verbatim>\<open>Clone\<close> of lines 2060-2081 (in both
  the clone is client 13).
\<close>

definition clonedHeap :: heap where
  "clonedHeap =
     (case Clone exampleStdlib 6 threeStagesHeap of Panic \<Rightarrow> threeStagesHeap | Return (cc, h) \<Rightarrow> h)"

definition clonedHeap2 :: heap where
  "clonedHeap2 =
     (case Clone2 exampleStdlib 6 threeStagesHeap of Panic \<Rightarrow> threeStagesHeap | Return (cc, h) \<Rightarrow> h)"

text \<open>
  The request \<^verbatim>\<open>c.R()\<close> of client 6 as \<^verbatim>\<open>do\<close> sends it when no middleware
  changes it: the empty URL is parsed and set, and the start time is taken.
\<close>

definition exampleSent :: Request where
  "exampleSent =
     (Client_R (Some 6))
       \<lparr>RawRequest := (RawRequest (Client_R (Some 6)))
          \<lparr>ReqURL := Some \<lparr>Scheme = ''http'', Host = [], Path = [], RawQuery = []\<rparr>,
           ReqHost := []\<rparr>\<rparr>"




definition exampleRequest :: HttpRequest where
  "exampleRequest =
     \<lparr>Method = ''GET'',
      ReqURL = Some \<lparr>Scheme = ''http'', Host = ''example.com'', Path = [], RawQuery = []\<rparr>,
      ReqHost = ''example.com'', ReqHeader = [], Proto = ''HTTP/1.1'', ProtoMajor = 1,
      ProtoMinor = 1, reqCtx = None\<rparr>"






definition newClientHeap :: heap where
  "newClientHeap = initialHeap\<lparr>nextAddr := 8, clients := (clients initialHeap)(7 := zeroClient)\<rparr>"

section \<open>Theorems: payload rule and redirect policy\<close>

text \<open>
  C5. For every client \<open>c\<close> and method \<open>m\<close>, \<^verbatim>\<open>isPayloadForbid(m)\<close> holds exactly when
  \<open>m\<close> is GET and \<^verbatim>\<open>AllowGetMethodPayload\<close> is false, or \<open>m\<close> is HEAD, or \<open>m\<close> is
  OPTIONS; after \<^verbatim>\<open>EnableAllowGetMethodPayload(a)\<close> the flag is \<open>a\<close>: a GET body is
  allowed once the flag is set, and HEAD and OPTIONS forbid a body whatever the flag.
\<close>

theorem isPayloadForbid_rule:
  "(isPayloadForbid h c m \<longleftrightarrow>
      (m = ''GET'' \<and> \<not> AllowGetMethodPayload (clients h c)) \<or> m = ''HEAD'' \<or> m = ''OPTIONS'')
   \<and> (isPayloadForbid (snd (EnableAllowGetMethodPayload c a h)) c m \<longleftrightarrow>
      (m = ''GET'' \<and> \<not> a) \<or> m = ''HEAD'' \<or> m = ''OPTIONS'')
   \<and> \<not> isPayloadForbid (snd (EnableAllowGetMethodPayload c True h)) c ''GET''
   \<and> isPayloadForbid (snd (EnableAllowGetMethodPayload c a h)) c ''HEAD''
   \<and> isPayloadForbid (snd (EnableAllowGetMethodPayload c a h)) c ''OPTIONS''"
  by (simp add: isPayloadForbid_def EnableAllowGetMethodPayload_def MethodGet_def
      MethodHead_def MethodOptions_def)

lemma debugRedirect_Return:
  assumes "logger (clients h c) \<noteq> None" and "ReqURL req \<noteq> None"
  shows "\<exists>lg. debugRedirect L c req h = Return (h\<lparr>logged := lg\<rparr>)"
proof (cases "DebugLog (clients h c)")
  case True
  with assms show ?thesis by (auto simp: debugRedirect_def logCall_def)
next
  case False
  have "h = h\<lparr>logged := logged h\<rparr>" by simp
  with False show ?thesis unfolding debugRedirect_def by (metis (full_types))
qed

lemma C_installs:
  "C h0 = (c, h) \<Longrightarrow>
     logger (clients h c) = Some defaultLogger \<and>
     httpClient (clients h c) = Some (nextAddr h0 + 3) \<and>
     CheckRedirect (httpClients h (nextAddr h0 + 3)) = Some (defaultCheckRedirectOf c)"
  by (auto simp: C_def Let_def zeroClient_def)

text \<open>
  C6. The default redirect function (the one the constructor installs, see \<open>C_installs\<close>),
  on a client with its logger and a request with its URL as the transport passes it:
  it returns nil on every hop whose history has fewer than 10 requests, and the error
  "stopped after 10 redirects" from 10 requests on; so of consecutive redirects the first
  one refused is the one that would lead to the 11th request. It changes nothing of the
  client but what is logged.
\<close>

theorem defaultCheckRedirect_limit:
  assumes "logger (clients h c) \<noteq> None" and "ReqURL req \<noteq> None"
  shows "\<exists>lg. defaultCheckRedirect L c req via h =
           Return (if length via < 10 then None else Some ''stopped after 10 redirects'',
                   h\<lparr>logged := lg\<rparr>)"
proof (cases "length via < 10")
  case True
  from debugRedirect_Return[OF assms] obtain lg
    where "debugRedirect L c req h = Return (h\<lparr>logged := lg\<rparr>)"
    by blast
  with True show ?thesis by (intro exI[of _ lg]) (simp add: defaultCheckRedirect_def)
next
  case False
  then show ?thesis by (intro exI[of _ "logged h"]) (simp add: defaultCheckRedirect_def)
qed

theorem defaultCheckRedirect_limit_witness:
  "logger (clients (snd (C emptyHeap)) 6) \<noteq> None \<and> ReqURL exampleRequest \<noteq> None
   \<and> (\<exists>lg. defaultCheckRedirect exampleStdlib 6 exampleRequest (replicate 9 exampleRequest)
              (snd (C emptyHeap)) = Return (None, (snd (C emptyHeap))\<lparr>logged := lg\<rparr>))
   \<and> (\<exists>lg. defaultCheckRedirect exampleStdlib 6 exampleRequest (replicate 10 exampleRequest)
              (snd (C emptyHeap))
            = Return (Some ''stopped after 10 redirects'', (snd (C emptyHeap))\<lparr>logged := lg\<rparr>))"
proof -
  have a: "logger (clients (snd (C emptyHeap)) 6) \<noteq> None"
    by (simp add: C_def Let_def zeroClient_def emptyHeap_def)
  have b: "ReqURL exampleRequest \<noteq> None"
    by (simp add: exampleRequest_def)
  from defaultCheckRedirect_limit[OF a b, of exampleStdlib "replicate 9 exampleRequest"]
    defaultCheckRedirect_limit[OF a b, of exampleStdlib "replicate 10 exampleRequest"] a b
  show ?thesis by simp
qed






section \<open>Theorems: URL, setters, default client\<close>

text \<open>
  C8. When the URL of a request parses to a host with an empty port segment (the host ends
  in a colon, as in \<open>example.com:\<close>), \<^verbatim>\<open>setRequestURL\<close> sets the host of the request,
  and the host of its URL, to the host without that colon.
\<close>

theorem setRequestURL_empty_port:
  assumes "url_Parse L url = Inr u" and "Host u = host @ '':''"
  shows "setRequestURL L r url = (r\<lparr>ReqURL := Some (u\<lparr>Host := host\<rparr>), ReqHost := host\<rparr>, None)"
  using assms by (simp add: setRequestURL_def removeEmptyPort_def)

theorem setRequestURL_empty_port_witness:
  "url_Parse exampleStdlib ''example.com:''
     = Inr \<lparr>Scheme = ''http'', Host = ''example.com:'', Path = [], RawQuery = []\<rparr>
   \<and> ReqHost (fst (setRequestURL exampleStdlib exampleRequest ''example.com:'')) = ''example.com''
   \<and> map_option Host (ReqURL (fst (setRequestURL exampleStdlib exampleRequest ''example.com:'')))
       = Some ''example.com''"
proof -
  have a: "url_Parse exampleStdlib ''example.com:''
      = Inr \<lparr>Scheme = ''http'', Host = ''example.com:'', Path = [], RawQuery = []\<rparr>"
    by (simp add: exampleStdlib_def)
  have b: "Host \<lparr>Scheme = ''http'', Host = ''example.com:'', Path = [], RawQuery = []\<rparr>
      = ''example.com'' @ '':''"
    by simp
  from setRequestURL_empty_port[OF a b, of exampleRequest] a show ?thesis by simp
qed

lemma SetLogger_never_nil: "logger (clients (snd (SetLogger c log h)) c) \<noteq> None"
  by (simp add: SetLogger_def split: option.splits)

text \<open>
  C9. On a client with its logger (the constructor sets one, and \<^verbatim>\<open>SetLogger\<close> never
  stores nil: \<open>C_installs\<close>, \<open>SetLogger_never_nil\<close>), each of the three setters, given
  input that its parser rejects, returns without a panic, returns the client it was called
  on, and leaves the heap as it was but for the line it logs: no field of the client, of
  its transport or of its collections changes.
\<close>

theorem setters_absorb_errors:
  assumes "logger (clients h c) = Some l"
  shows "(url_Parse L proxyUrl = Inl err \<longrightarrow>
            SetProxyURL L c proxyUrl h =
              Return (c, h\<lparr>logged := logged h @
                [(l, Errorf ''failed to parse proxy url %s: %v'' [proxyUrl, err])]\<rparr>))
       \<and> (snd (url_ParseQuery L (strings_TrimSpace L query)) = Some err \<longrightarrow>
            SetCommonQueryString L c query h =
              Return (c, h\<lparr>logged := logged h @
                [(l, Warnf ''failed to parse query string (%s): %v'' [query, err])]\<rparr>))
       \<and> (tls_LoadX509KeyPair L certFile keyFile = Inl err \<longrightarrow>
            SetCertFromFile L c certFile keyFile h =
              Return (c, h\<lparr>logged := logged h @
                [(l, Errorf ''failed to load client cert: %v'' [err])]\<rparr>))"
  using assms
  by (auto simp: SetProxyURL_def SetCommonQueryString_def SetCertFromFile_def logCall_def
      split: prod.splits)

theorem setters_absorb_errors_witness:
  "logger (clients (snd (C emptyHeap)) 6) = Some defaultLogger
   \<and> SetProxyURL exampleStdlib 6 ''%'' (snd (C emptyHeap)) =
       Return (6, (snd (C emptyHeap))\<lparr>logged :=
         [(defaultLogger, Errorf ''failed to parse proxy url %s: %v'' [''%'', ''invalid URL escape''])]\<rparr>)
   \<and> SetCommonQueryString exampleStdlib 6 '';'' (snd (C emptyHeap)) =
       Return (6, (snd (C emptyHeap))\<lparr>logged :=
         [(defaultLogger, Warnf ''failed to parse query string (%s): %v''
            ['';'', ''invalid semicolon separator in query''])]\<rparr>)
   \<and> SetCertFromFile exampleStdlib 6 [] [] (snd (C emptyHeap)) =
       Return (6, (snd (C emptyHeap))\<lparr>logged :=
         [(defaultLogger, Errorf ''failed to load client cert: %v''
            [''open : no such file or directory''])]\<rparr>)"
proof -
  have a: "logger (clients (snd (C emptyHeap)) 6) = Some defaultLogger"
    by (simp add: C_def Let_def zeroClient_def emptyHeap_def)
  have b: "logged (snd (C emptyHeap)) = []"
    by (simp add: C_def Let_def emptyHeap_def)
  have p: "url_Parse exampleStdlib ''%'' = Inl ''invalid URL escape''"
    and q: "snd (url_ParseQuery exampleStdlib (strings_TrimSpace exampleStdlib '';''))
              = Some ''invalid semicolon separator in query''"
    and k: "tls_LoadX509KeyPair exampleStdlib [] [] = Inl ''open : no such file or directory''"
    by (simp_all add: exampleStdlib_def)
  from setters_absorb_errors[OF a, where L = exampleStdlib and proxyUrl = "''%''"
        and err = "''invalid URL escape''"]
    setters_absorb_errors[OF a, where L = exampleStdlib and query = "'';''"
        and err = "''invalid semicolon separator in query''"]
    setters_absorb_errors[OF a, where L = exampleStdlib and certFile = "[]" and keyFile = "[]"
        and err = "''open : no such file or directory''"]
    a b p q k
  show ?thesis by simp
qed







lemma initial_default: "defaultClient initialHeap = Some 6"
  by (simp add: initialHeap_def C_def Let_def emptyHeap_def)

lemma enableDump_nil_transport:
  "transport (clients h c) = None \<Longrightarrow> enableDump D c h = Panic"
  by (simp add: enableDump_def)




lemma newClientHeap_client:
  "clients newClientHeap 7 = zeroClient" "defaultClient newClientHeap = Some 6"
  by (simp_all add: newClientHeap_def initial_default)





section \<open>Theorems: the request pipeline\<close>

subsection \<open>Slices\<close>

lemma appendSlice_elems:
  assumes "validSlice nxt A s" and "appendSlice nxt A s xs = (s', nxt', A')"
  shows "elems A' s' = elems A s @ xs"
  using assms
  by (auto simp: appendSlice_def validSlice_def elems_def split: slice.splits if_splits)

lemma appendSlice_valid:
  assumes "validSlice nxt A s" and "appendSlice nxt A s xs = (s', nxt', A')"
  shows "validSlice nxt' A' s' \<and> nxt \<le> nxt'"
  using assms
  by (auto simp: appendSlice_def validSlice_def split: slice.splits if_splits)

lemma appendSlice_frame:
  assumes "validSlice nxt A u" and "sliceAddr u \<inter> sliceAddr s = {}"
    and "appendSlice nxt A s xs = (s', nxt', A')"
  shows "elems A' u = elems A u \<and> validSlice nxt' A' u \<and> sliceAddr u \<inter> sliceAddr s' = {}"
  using assms
  by (auto simp: appendSlice_def validSlice_def elems_def sliceAddr_def split: slice.splits if_splits)


subsection \<open>Running middleware, and recording doubles\<close>

lemma recording_requestStage:
  "requestStage (recording E) m r (w, evs) =
     (case requestStage E m r w of (err, r', w') \<Rightarrow> (err, r', (w', evs @ [EvBefore m])))"
  by (simp add: recording_def)

lemma recording_responseStage:
  "responseStage (recording E) m r (w, evs) =
     (case responseStage E m r w of (err, r', w') \<Rightarrow> (err, r', (w', evs @ [EvAfter m])))"
  by (simp add: recording_def)

lemma recording_httpClientDo:
  "httpClientDo (recording E) hc raw (w, evs) =
     (case httpClientDo E hc raw w of (res, w') \<Rightarrow> (res, (w', evs @ [EvDispatch])))"
  by (simp add: recording_def)

lemma recording_ToBytes:
  "ToBytes (recording E) resp (w, evs) =
     (case ToBytes E resp w of (res, resp', w') \<Rightarrow> (res, resp', (w', evs)))"
  by (simp add: recording_def)

lemma recording_timeNow: "timeNow (recording E) (w, evs) = timeNow E w"
  by (simp add: recording_def)

lemma runRequestMiddleware_recording:
  assumes "runRequestMiddleware E fs r w = (err, r', w')"
  shows "\<exists>k\<le>length fs.
     runRequestMiddleware (recording E) fs r (w, evs) = (err, r', (w', evs @ map EvBefore (take k fs)))
     \<and> (err = None \<longrightarrow> k = length fs)"
  using assms
proof (induction fs arbitrary: r w evs)
  case Nil
  then show ?case by simp
next
  case (Cons f fs)
  obtain e r1 w1 where st: "requestStage E f r w = (e, r1, w1)"
    by (cases "requestStage E f r w")
  show ?case
  proof (cases e)
    case (Some x)
    with st Cons.prems have "err = Some x" "r' = r1" "w' = w1" by simp_all
    with st Some show ?thesis
      by (intro exI[of _ 1]) (simp add: recording_requestStage)
  next
    case None
    with st Cons.prems have rest: "runRequestMiddleware E fs r1 w1 = (err, r', w')" by simp
    from Cons.IH[OF rest, of "evs @ [EvBefore f]"] obtain k where
      k: "k \<le> length fs"
      and run: "runRequestMiddleware (recording E) fs r1 (w1, evs @ [EvBefore f]) =
          (err, r', (w', (evs @ [EvBefore f]) @ map EvBefore (take k fs)))"
      and full: "err = None \<longrightarrow> k = length fs"
      by blast
    have "runRequestMiddleware (recording E) (f # fs) r (w, evs) =
        (err, r', (w', evs @ map EvBefore (take (Suc k) (f # fs))))"
      using st None run by (simp add: recording_requestStage)
    with k full show ?thesis
      by (intro exI[of _ "Suc k"]) simp
  qed
qed


lemma runResponseMiddleware_recording:
  assumes "runResponseMiddleware E fs r w = (err, r', w')"
  shows "\<exists>k\<le>length fs.
     runResponseMiddleware (recording E) fs r (w, evs) = (err, r', (w', evs @ map EvAfter (take k fs)))
     \<and> (err = None \<longrightarrow> k = length fs)"
  using assms
proof (induction fs arbitrary: r w evs)
  case Nil
  then show ?case by simp
next
  case (Cons f fs)
  obtain e r1 w1 where st: "responseStage E f r w = (e, r1, w1)"
    by (cases "responseStage E f r w")
  show ?case
  proof (cases e)
    case (Some x)
    with st Cons.prems have "err = Some x" "r' = r1" "w' = w1" by simp_all
    with st Some show ?thesis
      by (intro exI[of _ 1]) (simp add: recording_responseStage)
  next
    case None
    with st Cons.prems have rest: "runResponseMiddleware E fs r1 w1 = (err, r', w')" by simp
    from Cons.IH[OF rest, of "evs @ [EvAfter f]"] obtain k where
      k: "k \<le> length fs"
      and run: "runResponseMiddleware (recording E) fs r1 (w1, evs @ [EvAfter f]) =
          (err, r', (w', (evs @ [EvAfter f]) @ map EvAfter (take k fs)))"
      and full: "err = None \<longrightarrow> k = length fs"
      by blast
    have "runResponseMiddleware (recording E) (f # fs) r (w, evs) =
        (err, r', (w', evs @ map EvAfter (take (Suc k) (f # fs))))"
      using st None run by (simp add: recording_responseStage)
    with k full show ?thesis
      by (intro exI[of _ "Suc k"]) simp
  qed
qed

lemma runRequestMiddleware_client:
  assumes "\<forall>m q v. client (fst (snd (requestStage E m q v))) = client q"
    and "runRequestMiddleware E fs r w = (err, r', w')"
  shows "client r' = client r"
  using assms(2)
proof (induction fs arbitrary: r w)
  case Nil
  then show ?case by simp
next
  case (Cons f fs)
  obtain e r1 w1 where st: "requestStage E f r w = (e, r1, w1)"
    by (cases "requestStage E f r w")
  from assms(1) have "client (fst (snd (requestStage E f r w))) = client r" by blast
  with st have c1: "client r1 = client r" by simp
  show ?case
  proof (cases e)
    case None
    with st Cons.prems have "runRequestMiddleware E fs r1 w1 = (err, r', w')" by simp
    from Cons.IH[OF this] c1 show ?thesis by simp
  next
    case (Some a)
    with st Cons.prems c1 show ?thesis by simp
  qed
qed

lemma setTrace_client: "setTrace h r = Return r' \<Longrightarrow> client r' = client r"
  unfolding setTrace_def Let_def
  by (cases "hasTrace r"; cases "client r") (auto split: if_splits)

lemma setupRequest_client: "setupRequest L h r = Return r' \<Longrightarrow> client r' = client r"
  unfolding setupRequest_def
  by (drule setTrace_client) (simp add: setRequestHeaderAndCookie_def)

lemma recording_keeps_client:
  assumes "\<forall>m q v. client (fst (snd (requestStage E m q v))) = client q"
  shows "\<forall>m q v. client (fst (snd (requestStage (recording E) m q v))) = client q"
proof (intro allI)
  fix m q and v :: "'a \<times> event list"
  obtain w evs where v: "v = (w, evs)" by (cases v)
  obtain e r1 w1 where st: "requestStage E m q w = (e, r1, w1)"
    by (cases "requestStage E m q w")
  from assms have "client (fst (snd (requestStage E m q w))) = client q" by blast
  with st v show "client (fst (snd (requestStage (recording E) m q v))) = client q"
    by (simp add: recording_requestStage)
qed

lemma take_Suc_snoc: "i < length xs \<Longrightarrow> take (Suc i) xs = take i xs @ [xs ! i]"
  by (simp add: take_Suc_conv_app_nth)

lemma runRequestMiddleware_append:
  assumes "runRequestMiddleware E fs r w = (None, r1, w1)"
  shows "runRequestMiddleware E (fs @ gs) r w = runRequestMiddleware E gs r1 w1"
  using assms
proof (induction fs arbitrary: r w)
  case Nil
  then show ?case by simp
next
  case (Cons f fs)
  obtain e r2 w2 where st: "requestStage E f r w = (e, r2, w2)"
    by (cases "requestStage E f r w")
  with Cons.prems have e: "e = None" by (cases e) simp_all
  with st Cons.prems have "runRequestMiddleware E fs r2 w2 = (None, r1, w1)" by simp
  from Cons.IH[OF this] st e show ?case by simp
qed

lemma runRequestMiddleware_error:
  assumes "runRequestMiddleware E fs r w = (Some e, r1, w1)"
  shows "runRequestMiddleware E (fs @ gs) r w = (Some e, r1, w1)"
  using assms
proof (induction fs arbitrary: r w)
  case Nil
  then show ?case by simp
next
  case (Cons f fs)
  obtain e' r2 w2 where st: "requestStage E f r w = (e', r2, w2)"
    by (cases "requestStage E f r w")
  show ?case
  proof (cases e')
    case None
    with st Cons.prems have "runRequestMiddleware E fs r2 w2 = (Some e, r1, w1)" by simp
    from Cons.IH[OF this] st None show ?thesis by simp
  next
    case (Some x)
    with st Cons.prems show ?thesis by simp
  qed
qed

lemma dispatch_ud_error:
  assumes "client r = Some rc"
    and "runRequestMiddleware E (elems (requestMiddlewareArrays h) (udBeforeRequest (clients h rc))) r w
           = (Some e, r1, w1)"
  shows "dispatch L E c r h w =
     Return (Aborted (\<lparr>respRequest = None, respResponse = None, body = None\<rparr>, Some e, r1, h, w1))"
  using assms by (simp add: dispatch_def)

lemma dispatch_bi_error:
  assumes "client r = Some rc"
    and "runRequestMiddleware E (elems (requestMiddlewareArrays h) (udBeforeRequest (clients h rc))) r w
           = (None, r1, w1)"
    and "client r1 = Some rc1"
    and "runRequestMiddleware E (elems (requestMiddlewareArrays h) (beforeRequest (clients h rc1))) r1 w1
           = (Some e, r2, w2)"
  shows "dispatch L E c r h w =
     Return (Aborted (\<lparr>respRequest = None, respResponse = None, body = None\<rparr>, Some e, r2, h, w2))"
  using assms by (simp add: dispatch_def)

lemma dispatch_before_error:
  assumes cl: "client r = Some rc"
    and keep: "\<forall>m q v. client (fst (snd (requestStage E m q v))) = client q"
    and run: "runRequestMiddleware E
           (elems (requestMiddlewareArrays h) (udBeforeRequest (clients h rc)) @
            elems (requestMiddlewareArrays h) (beforeRequest (clients h rc))) r w = (Some e, r', w')"
  shows "dispatch L E c r h w =
     Return (Aborted (\<lparr>respRequest = None, respResponse = None, body = None\<rparr>, Some e, r', h, w'))"
proof -
  let ?ud = "elems (requestMiddlewareArrays h) (udBeforeRequest (clients h rc))"
  obtain e1 r1 w1 where u: "runRequestMiddleware E ?ud r w = (e1, r1, w1)"
    by (cases "runRequestMiddleware E ?ud r w")
  show ?thesis
  proof (cases e1)
    case (Some x)
    from runRequestMiddleware_error[of E ?ud r w x r1 w1] u Some run
    have "x = e" "r1 = r'" "w1 = w'" by simp_all
    with dispatch_ud_error[OF cl, of E h] u Some show ?thesis by simp
  next
    case None
    from runRequestMiddleware_client[OF keep u] cl have c1: "client r1 = Some rc" by simp
    from runRequestMiddleware_append[of E ?ud r w r1 w1] u None run
    have "runRequestMiddleware E (elems (requestMiddlewareArrays h) (beforeRequest (clients h rc))) r1 w1
        = (Some e, r', w')" by simp
    from dispatch_bi_error[OF cl _ c1 this] u None show ?thesis by simp
  qed
qed

lemma runRequestMiddleware_fails_at:
  assumes "i < length fs"
    and "runRequestMiddleware E (take i fs) r w = (None, ri, wi)"
    and "requestStage E (fs ! i) ri wi = (Some e, r', w')"
  shows "runRequestMiddleware E fs r w = (Some e, r', w')"
proof -
  have "runRequestMiddleware E (take i fs @ [fs ! i]) r w = (Some e, r', w')"
    using runRequestMiddleware_append[OF assms(2), of "[fs ! i]"] assms(3) by simp
  then have "runRequestMiddleware E (take (Suc i) fs) r w = (Some e, r', w')"
    using assms(1) by (simp add: take_Suc_snoc)
  from runRequestMiddleware_error[OF this, of "drop (Suc i) fs"] show ?thesis by simp
qed


lemma C_emptyHeap: "C emptyHeap = (6, exampleHeap)"
  by (simp add: exampleHeap_def C_def Let_def emptyHeap_def)

lemma exampleHeap_client:
  "clients exampleHeap 6 = zeroClient
     \<lparr>beforeRequest := Slice 4 4, afterResponse := Slice 5 2,
      logger := Some defaultLogger, httpClient := Some 3, transport := Some 0,
      transport2 := Some 1, jsonMarshal := Some json_Marshal,
      jsonUnmarshal := Some json_Unmarshal, xmlMarshal := Some xml_Marshal,
      xmlUnmarshal := Some xml_Unmarshal\<rparr>"
  "nextAddr exampleHeap = 7"
  "requestMiddlewareArrays exampleHeap 4 = Backing 4 [parseRequestURL, parseRequestHeader, parseRequestCookie, parseRequestBody]"
  "responseMiddlewareArrays exampleHeap 5 = Backing 2 [parseResponseBody, handleDownload]"
  by (simp_all add: exampleHeap_def C_def Let_def emptyHeap_def)

lemma example_keeps_client:
  "\<forall>m q v. client (fst (snd (requestStage exampleCollaborators m q v))) = client q"
  by (simp add: exampleCollaborators_def)

lemma refusingHeap_client:
  "clients refusingHeap 6 = (clients exampleHeap 6)\<lparr>udBeforeRequest := Slice 7 1\<rparr>"
  "requestMiddlewareArrays refusingHeap 7 = Backing 1 [UserRequestMiddleware 13]"
  "requestMiddlewareArrays refusingHeap 4 = Backing 4 [parseRequestURL, parseRequestHeader, parseRequestCookie, parseRequestBody]"
  by (simp_all add: refusingHeap_def OnBeforeRequest_def appendSlice_def
      exampleHeap_client zeroClient_def growCap_def elems_def)


text \<open>
  C3. When the middleware at position \<open>i\<close> of the request middleware (the user's, then the
  built-in ones) returns an error after those before it returned nil, \<^verbatim>\<open>do\<close> returns
  that error with an empty response, and leaves the request and the world as that
  middleware left them: with recording doubles the calls made are the first \<open>i + 1\<close>
  middleware and nothing else, so no later middleware ran and the exchange was not called.
  (Middleware leave the \<^verbatim>\<open>client\<close> field of the request as it is: the field is not
  exported.)
\<close>

theorem do_fail_fast:
  assumes cl: "client r = Some rc"
    and keep: "\<forall>m q v. client (fst (snd (requestStage E m q v))) = client q"
    and stages: "stages = elems (requestMiddlewareArrays h) (udBeforeRequest (clients h rc)) @
                          elems (requestMiddlewareArrays h) (beforeRequest (clients h rc))"
    and i: "i < length stages"
    and before: "runRequestMiddleware E (take i stages) r w = (None, ri, wi)"
    and fails: "requestStage E (stages ! i) ri wi = (Some e, r', w')"
  shows "do L E c r h w =
           Return (\<lparr>respRequest = None, respResponse = None, body = None\<rparr>, Some e, r', h, w')
       \<and> do L (recording E) c r h (w, []) =
           Return (\<lparr>respRequest = None, respResponse = None, body = None\<rparr>, Some e, r', h,
                   (w', map EvBefore (take (Suc i) stages)))"
proof -
  from runRequestMiddleware_fails_at[OF i before fails]
  have run: "runRequestMiddleware E stages r w = (Some e, r', w')" .
  from dispatch_before_error[OF cl keep run[unfolded stages]]
  have one: "do L E c r h w =
           Return (\<lparr>respRequest = None, respResponse = None, body = None\<rparr>, Some e, r', h, w')"
    by (simp add: do_def)
  from runRequestMiddleware_recording[OF before, of "[]"] 
  have rb: "runRequestMiddleware (recording E) (take i stages) r (w, []) =
       (None, ri, (wi, map EvBefore (take i stages)))"
    using i by auto
  have rf: "requestStage (recording E) (stages ! i) ri (wi, map EvBefore (take i stages))
      = (Some e, r', (w', map EvBefore (take (Suc i) stages)))"
    using fails i by (simp add: recording_requestStage take_Suc_snoc)
  from runRequestMiddleware_fails_at[OF i rb rf]
  have run': "runRequestMiddleware (recording E) stages r (w, [])
      = (Some e, r', (w', map EvBefore (take (Suc i) stages)))" .
  from dispatch_before_error[OF cl recording_keeps_client[OF keep] run'[unfolded stages]]
  have two: "do L (recording E) c r h (w, []) =
           Return (\<lparr>respRequest = None, respResponse = None, body = None\<rparr>, Some e, r', h,
                   (w', map EvBefore (take (Suc i) stages)))"
    using stages by (simp add: do_def)
  from one two show ?thesis by simp
qed

theorem do_fail_fast_witness:
  "do exampleStdlib exampleCollaborators 6 (Client_R (Some 6)) refusingHeap ()
     = Return (\<lparr>respRequest = None, respResponse = None, body = None\<rparr>, Some ''refused'',
               Client_R (Some 6), refusingHeap, ())
   \<and> do exampleStdlib (recording exampleCollaborators) 6 (Client_R (Some 6)) refusingHeap ((), [])
     = Return (\<lparr>respRequest = None, respResponse = None, body = None\<rparr>, Some ''refused'',
               Client_R (Some 6), refusingHeap, ((), [EvBefore (UserRequestMiddleware 13)]))"
proof -
  have cl: "client (Client_R (Some 6)) = Some 6" by (simp add: Client_R_def)
  have st: "[UserRequestMiddleware 13, parseRequestURL, parseRequestHeader, parseRequestCookie,
             parseRequestBody]
      = elems (requestMiddlewareArrays refusingHeap) (udBeforeRequest (clients refusingHeap 6)) @
        elems (requestMiddlewareArrays refusingHeap) (beforeRequest (clients refusingHeap 6))"
    by (simp add: refusingHeap_client exampleHeap_client zeroClient_def elems_def)
  have i: "0 < length [UserRequestMiddleware 13, parseRequestURL, parseRequestHeader,
      parseRequestCookie, parseRequestBody]" by simp
  have before: "runRequestMiddleware exampleCollaborators
      (take 0 [UserRequestMiddleware 13, parseRequestURL, parseRequestHeader, parseRequestCookie,
             parseRequestBody]) (Client_R (Some 6)) () = (None, Client_R (Some 6), ())"
    by simp
  have fails: "requestStage exampleCollaborators
      ([UserRequestMiddleware 13, parseRequestURL, parseRequestHeader, parseRequestCookie,
             parseRequestBody] ! 0) (Client_R (Some 6)) () = (Some ''refused'', Client_R (Some 6), ())"
    by (simp add: exampleCollaborators_def)
  from do_fail_fast[OF cl example_keeps_client st i before fails, of exampleStdlib 6]
  show ?thesis by simp
qed


subsection \<open>The order of the calls\<close>

lemma logCall_cases:
  "logCall c e h = Panic \<or> (\<exists>lg. logCall c e h = Return (h\<lparr>logged := lg\<rparr>))"
  by (cases "logger (clients h c)") (auto simp: logCall_def)

lemma heap_logged_self: "\<exists>lg. h = h\<lparr>logged := lg\<rparr>"
  by (rule exI[of _ "logged h"]) simp

lemma dispatch_events:
  assumes d: "dispatch L (recording E) c r h (w, []) = Return d"
    and cl: "client r = Some rc"
    and keep: "\<forall>m q v. client (fst (snd (requestStage E m q v))) = client q"
    and ud: "ud = elems (requestMiddlewareArrays h) (udBeforeRequest (clients h rc))"
    and bi: "bi = elems (requestMiddlewareArrays h) (beforeRequest (clients h rc))"
  shows "(\<exists>resp err r' lg w' evs.
            d = Aborted (resp, Some err, r', h\<lparr>logged := lg\<rparr>, (w', evs))
            \<and> prefix evs (map EvBefore (ud @ bi) @ [EvDispatch]))
       \<or> (\<exists>r' lg hr w'.
            d = Sent r' (h\<lparr>logged := lg\<rparr>) hr (w', map EvBefore (ud @ bi) @ [EvDispatch])
            \<and> client r' = Some rc)"
proof -
  have hh: "h = h\<lparr>logged := logged h\<rparr>" by simp
  let ?resp = "\<lparr>respRequest = None, respResponse = None, body = None\<rparr>"
  obtain e1 r1 w1 where u: "runRequestMiddleware E ud r w = (e1, r1, w1)"
    by (cases "runRequestMiddleware E ud r w")
  from runRequestMiddleware_recording[OF u, of "[]"] obtain k1 where
    k1: "k1 \<le> length ud"
    and ru: "runRequestMiddleware (recording E) ud r (w, []) = (e1, r1, (w1, map EvBefore (take k1 ud)))"
    and f1: "e1 = None \<longrightarrow> k1 = length ud"
    by auto
  show ?thesis
  proof (cases e1)
    case (Some x)
    from dispatch_ud_error[OF cl, of "recording E" h] ru Some ud d
    have "d = Aborted (?resp, Some x, r1, h\<lparr>logged := logged h\<rparr>, (w1, map EvBefore (take k1 ud)))" by simp
    moreover have "prefix (map EvBefore (take k1 ud)) (map EvBefore (ud @ bi) @ [EvDispatch])"
      by (metis append.assoc append_take_drop_id map_append prefixI)
    ultimately show ?thesis by blast
  next
    case None
    with f1 ru have ru': "runRequestMiddleware (recording E) ud r (w, []) = (None, r1, (w1, map EvBefore ud))"
      by simp
    from runRequestMiddleware_client[OF keep u] cl have c1: "client r1 = Some rc" by simp
    obtain e2 r2 w2 where b: "runRequestMiddleware E bi r1 w1 = (e2, r2, w2)"
      by (cases "runRequestMiddleware E bi r1 w1")
    from runRequestMiddleware_recording[OF b, of "map EvBefore ud"] obtain k2 where
      k2: "k2 \<le> length bi"
      and rb: "runRequestMiddleware (recording E) bi r1 (w1, map EvBefore ud)
          = (e2, r2, (w2, map EvBefore ud @ map EvBefore (take k2 bi)))"
      and f2: "e2 = None \<longrightarrow> k2 = length bi"
      by auto
    show ?thesis
    proof (cases e2)
      case (Some x)
      from dispatch_bi_error[OF cl _ c1, of "recording E" h] ru' rb Some ud bi d
      have "d = Aborted (?resp, Some x, r2, h\<lparr>logged := logged h\<rparr>,
                 (w2, map EvBefore ud @ map EvBefore (take k2 bi)))"
        by simp
      moreover have "prefix (map EvBefore ud @ map EvBefore (take k2 bi))
          (map EvBefore (ud @ bi) @ [EvDispatch])"
        by (metis append.assoc append_take_drop_id map_append prefixI)
      ultimately show ?thesis by blast
    next
      case None
      with f2 rb have rb': "runRequestMiddleware (recording E) bi r1 (w1, map EvBefore ud)
          = (None, r2, (w2, map EvBefore (ud @ bi)))" by simp
      from runRequestMiddleware_client[OF keep b] c1 have c2: "client r2 = Some rc" by simp
      note start = cl ru'[unfolded ud] c1 rb'[unfolded ud bi]
      show ?thesis
      proof (cases "setupRequest L h r2")
        case Panic
        with start d show ?thesis by (simp add: dispatch_def)
      next
        case (Return r3)
        from setupRequest_client[OF Return] c2 have c3: "client r3 = Some rc" by simp
        let ?dbg = "if DebugLog (clients h c)
            then (case ReqURL (RawRequest r3) of
                    None \<Rightarrow> Panic
                  | Some u \<Rightarrow>
                      logCall c (Debugf ''%s %s'' [Method (RawRequest r3), url_String L u]) h)
            else Return h"
        have "?dbg = Panic \<or> (\<exists>lg. ?dbg = Return (h\<lparr>logged := lg\<rparr>))"
          using logCall_cases[of c _ h] heap_logged_self[of h] by (auto split: option.splits)
        then show ?thesis
        proof
          assume "?dbg = Panic"
          with start Return d show ?thesis by (simp add: dispatch_def)
        next
          assume "\<exists>lg. ?dbg = Return (h\<lparr>logged := lg\<rparr>)"
          then obtain lg where dbg: "?dbg = Return (h\<lparr>logged := lg\<rparr>)" by blast
          show ?thesis
          proof (cases "httpClient (clients h c)")
            case None
            with start Return dbg d show ?thesis by (simp add: dispatch_def)
          next
            case (Some hc)
            obtain res w3 where x: "httpClientDo E (httpClients h hc) (RawRequest r3) w2 = (res, w3)"
              by (cases "httpClientDo E (httpClients h hc) (RawRequest r3) w2")
            then have x': "httpClientDo (recording E) (httpClients h hc) (RawRequest r3)
                (w2, map EvBefore (ud @ bi)) = (res, (w3, map EvBefore (ud @ bi) @ [EvDispatch]))"
              by (simp add: recording_httpClientDo)
            show ?thesis
            proof (cases res)
              case (Inl err)
              with start Return dbg Some x' d ud bi
              have "d = Aborted (?resp, Some err, r3\<lparr>StartTime := timeNow (recording E) (w2, map EvBefore (ud @ bi))\<rparr>,
                  h\<lparr>logged := lg\<rparr>, (w3, map EvBefore (ud @ bi) @ [EvDispatch]))"
                by (simp add: dispatch_def)
              then show ?thesis by blast
            next
              case (Inr hr)
              with start Return dbg Some x' d ud bi
              have "d = Sent (r3\<lparr>StartTime := timeNow (recording E) (w2, map EvBefore (ud @ bi))\<rparr>)
                  (h\<lparr>logged := lg\<rparr>) hr (w3, map EvBefore (ud @ bi) @ [EvDispatch])"
                by (simp add: dispatch_def)
              moreover have "client (r3\<lparr>StartTime := timeNow (recording E) (w2, map EvBefore (ud @ bi))\<rparr>)
                  = Some rc"
                using c3 by simp
              ultimately show ?thesis by blast
            qed
          qed
        qed
      qed
    qed
  qed
qed

lemma runAfterResponse_events:
  assumes "runAfterResponse (recording E) r h resp0 (w, evs0) = Return (resp, err, r', h', (w', evs))"
    and "client r = Some rc"
    and "af = elems (responseMiddlewareArrays h) (afterResponse (clients h rc))"
  shows "\<exists>k\<le>length af. evs = evs0 @ map EvAfter (take k af) \<and> (err = None \<longrightarrow> k = length af)"
proof -
  obtain e1 r1 w1 where a: "runResponseMiddleware E af resp0 w = (e1, r1, w1)"
    by (cases "runResponseMiddleware E af resp0 w")
  from runResponseMiddleware_recording[OF a, of evs0] obtain k where
    k: "k \<le> length af"
    and ra: "runResponseMiddleware (recording E) af resp0 (w, evs0)
        = (e1, r1, (w1, evs0 @ map EvAfter (take k af)))"
    and f: "e1 = None \<longrightarrow> k = length af"
    by auto
  have "runAfterResponse (recording E) r h resp0 (w, evs0)
      = Return (r1, e1, r, h, (w1, evs0 @ map EvAfter (take k af)))"
    using assms(2) ra by (simp add: runAfterResponse_def assms(3))
  with assms(1) have "err = e1 \<and> evs = evs0 @ map EvAfter (take k af)" by simp
  with k f show ?thesis by blast
qed

lemma deliver_events:
  assumes d: "deliver (recording E) c r h hr (w, evs0) = Return (resp, err, r', h', (w', evs))"
    and cl: "client r = Some rc"
    and af: "af = elems (responseMiddlewareArrays h) (afterResponse (clients h rc))"
  shows "\<exists>k\<le>length af. evs = evs0 @ map EvAfter (take k af) \<and> (err = None \<longrightarrow> k = length af)"
proof (cases "\<not> disableAutoReadResponse (clients h c) \<and> \<not> isSaveResponse r")
  case False
  with d have "runAfterResponse (recording E) r h
      \<lparr>respRequest = Some r, respResponse = Some hr, body = None\<rparr> (w, evs0)
      = Return (resp, err, r', h', (w', evs))"
    by (auto simp: deliver_def)
  from runAfterResponse_events[OF this cl af] show ?thesis .
next
  case True
  obtain bs rerr resp1 w1 where
    tb: "ToBytes E \<lparr>respRequest = Some r, respResponse = Some hr, body = None\<rparr> w
           = ((bs, rerr), resp1, w1)"
    by (cases "ToBytes E \<lparr>respRequest = Some r, respResponse = Some hr, body = None\<rparr> w") auto
  show ?thesis
  proof (cases rerr)
    case (Some e)
    with True d tb have "err = Some e" "evs = evs0"
      by (simp_all add: deliver_def recording_ToBytes)
    then show ?thesis by (intro exI[of _ 0]) simp
  next
    case None
    with True d tb have "runAfterResponse (recording E) r h resp1 (w1, evs0)
      = Return (resp, err, r', h', (w', evs))"
      by (simp add: deliver_def recording_ToBytes)
    from runAfterResponse_events[OF this cl af] show ?thesis .
  qed
qed

lemma do_events:
  assumes run: "do L (recording E) c r h (w, []) = Return (resp, err, r', h', (w', evs))"
    and cl: "client r = Some rc"
    and keep: "\<forall>m q v. client (fst (snd (requestStage E m q v))) = client q"
    and ud: "ud = elems (requestMiddlewareArrays h) (udBeforeRequest (clients h rc))"
    and bi: "bi = elems (requestMiddlewareArrays h) (beforeRequest (clients h rc))"
    and af: "af = elems (responseMiddlewareArrays h) (afterResponse (clients h rc))"
  shows "prefix evs (map EvBefore (ud @ bi) @ [EvDispatch] @ map EvAfter af)
       \<and> (err = None \<longrightarrow> evs = map EvBefore (ud @ bi) @ [EvDispatch] @ map EvAfter af)"
proof (cases "dispatch L (recording E) c r h (w, [])")
  case Panic
  with run show ?thesis by (simp add: do_def)
next
  case (Return d)
  from dispatch_events[OF Return cl keep ud bi]
  consider (aborted) resp1 err1 r1 lg w1 evs1 where
      "d = Aborted (resp1, Some err1, r1, h\<lparr>logged := lg\<rparr>, (w1, evs1))"
      "prefix evs1 (map EvBefore (ud @ bi) @ [EvDispatch])"
    | (sent) r1 lg hr w1 where
      "d = Sent r1 (h\<lparr>logged := lg\<rparr>) hr (w1, map EvBefore (ud @ bi) @ [EvDispatch])"
      "client r1 = Some rc"
    by blast
  then show ?thesis
  proof cases
    case aborted
    with run Return have "err = Some err1" "evs = evs1" by (simp_all add: do_def)
    with aborted(2) show ?thesis
      by (metis append.assoc option.distinct(1) prefix_order.trans prefixI)
  next
    case sent
    with run Return have dl: "deliver (recording E) c r1 (h\<lparr>logged := lg\<rparr>) hr
        (w1, map EvBefore (ud @ bi) @ [EvDispatch]) = Return (resp, err, r', h', (w', evs))"
      by (simp add: do_def)
    have af': "af = elems (responseMiddlewareArrays (h\<lparr>logged := lg\<rparr>))
        (afterResponse (clients (h\<lparr>logged := lg\<rparr>) rc))"
      using af by simp
    from deliver_events[OF dl sent(2) af'] obtain k where
      k: "k \<le> length af" "evs = (map EvBefore (ud @ bi) @ [EvDispatch]) @ map EvAfter (take k af)"
        "err = None \<longrightarrow> k = length af"
      by blast
    have "prefix (map EvAfter (take k af)) (map EvAfter af)"
      by (metis append_take_drop_id map_append prefixI)
    with k show ?thesis by auto
  qed
qed

lemma C_stages:
  assumes "C h0 = (c, h)"
  shows "stagesValid h c"
    and "elems (requestMiddlewareArrays h) (udBeforeRequest (clients h c)) = []"
    and "elems (requestMiddlewareArrays h) (beforeRequest (clients h c)) =
           [parseRequestURL, parseRequestHeader, parseRequestCookie, parseRequestBody]"
    and "elems (responseMiddlewareArrays h) (afterResponse (clients h c)) =
           [parseResponseBody, handleDownload]"
  using assms
  by (auto simp: C_def Let_def zeroClient_def stagesValid_def validSlice_def sliceAddr_def elems_def)

lemma register_stages:
  assumes v: "stagesValid h c"
  shows "stagesValid (register c x h) c
    \<and> elems (requestMiddlewareArrays (register c x h)) (udBeforeRequest (clients (register c x h) c))
        = elems (requestMiddlewareArrays h) (udBeforeRequest (clients h c)) @ beforeOf [x]
    \<and> elems (requestMiddlewareArrays (register c x h)) (beforeRequest (clients (register c x h) c))
        = elems (requestMiddlewareArrays h) (beforeRequest (clients h c))
    \<and> elems (responseMiddlewareArrays (register c x h)) (afterResponse (clients (register c x h) c))
        = elems (responseMiddlewareArrays h) (afterResponse (clients h c)) @ afterOf [x]"
proof (cases x)
  case (Before m)
  obtain s n A where a: "appendSlice (nextAddr h) (requestMiddlewareArrays h)
      (udBeforeRequest (clients h c)) [m] = (s, n, A)"
    by (cases "appendSlice (nextAddr h) (requestMiddlewareArrays h) (udBeforeRequest (clients h c)) [m]")
  from v have vu: "validSlice (nextAddr h) (requestMiddlewareArrays h) (udBeforeRequest (clients h c))"
    and vb: "validSlice (nextAddr h) (requestMiddlewareArrays h) (beforeRequest (clients h c))"
    and dj: "sliceAddr (beforeRequest (clients h c)) \<inter> sliceAddr (udBeforeRequest (clients h c)) = {}"
    and va: "validSlice (nextAddr h) (responseMiddlewareArrays h) (afterResponse (clients h c))"
    by (simp_all add: stagesValid_def)
  from appendSlice_elems[OF vu a] appendSlice_valid[OF vu a] appendSlice_frame[OF vb dj a]
  have "elems A s = elems (requestMiddlewareArrays h) (udBeforeRequest (clients h c)) @ [m]"
    "validSlice n A s" "nextAddr h \<le> n"
    "elems A (beforeRequest (clients h c)) = elems (requestMiddlewareArrays h) (beforeRequest (clients h c))"
    "validSlice n A (beforeRequest (clients h c))"
    "sliceAddr (beforeRequest (clients h c)) \<inter> sliceAddr s = {}"
    by simp_all
  moreover have "validSlice n (responseMiddlewareArrays h) (afterResponse (clients h c))"
    using va \<open>nextAddr h \<le> n\<close> by (auto simp: validSlice_def split: slice.splits)
  ultimately show ?thesis
    using Before a by (simp add: OnBeforeRequest_def stagesValid_def)
next
  case (After m)
  obtain s n A where a: "appendSlice (nextAddr h) (responseMiddlewareArrays h)
      (afterResponse (clients h c)) [m] = (s, n, A)"
    by (cases "appendSlice (nextAddr h) (responseMiddlewareArrays h) (afterResponse (clients h c)) [m]")
  from v have vu: "validSlice (nextAddr h) (requestMiddlewareArrays h) (udBeforeRequest (clients h c))"
    and vb: "validSlice (nextAddr h) (requestMiddlewareArrays h) (beforeRequest (clients h c))"
    and dj: "sliceAddr (beforeRequest (clients h c)) \<inter> sliceAddr (udBeforeRequest (clients h c)) = {}"
    and va: "validSlice (nextAddr h) (responseMiddlewareArrays h) (afterResponse (clients h c))"
    by (simp_all add: stagesValid_def)
  from appendSlice_elems[OF va a] appendSlice_valid[OF va a]
  have "elems A s = elems (responseMiddlewareArrays h) (afterResponse (clients h c)) @ [m]"
    "validSlice n A s" "nextAddr h \<le> n"
    by simp_all
  moreover have "validSlice n (requestMiddlewareArrays h) (udBeforeRequest (clients h c))"
    "validSlice n (requestMiddlewareArrays h) (beforeRequest (clients h c))"
    using vu vb \<open>nextAddr h \<le> n\<close> by (auto simp: validSlice_def split: slice.splits)
  ultimately show ?thesis
    using After a dj by (simp add: OnAfterResponse_def stagesValid_def)
qed

lemma beforeOf_append: "beforeOf (xs @ ys) = beforeOf xs @ beforeOf ys"
  by (induction xs rule: beforeOf.induct) simp_all

lemma afterOf_append: "afterOf (xs @ ys) = afterOf xs @ afterOf ys"
  by (induction xs rule: afterOf.induct) simp_all

lemma registrations_stages:
  assumes "stagesValid h c"
  shows "stagesValid (fold (register c) regs h) c
    \<and> elems (requestMiddlewareArrays (fold (register c) regs h))
          (udBeforeRequest (clients (fold (register c) regs h) c))
        = elems (requestMiddlewareArrays h) (udBeforeRequest (clients h c)) @ beforeOf regs
    \<and> elems (requestMiddlewareArrays (fold (register c) regs h))
          (beforeRequest (clients (fold (register c) regs h) c))
        = elems (requestMiddlewareArrays h) (beforeRequest (clients h c))
    \<and> elems (responseMiddlewareArrays (fold (register c) regs h))
          (afterResponse (clients (fold (register c) regs h) c))
        = elems (responseMiddlewareArrays h) (afterResponse (clients h c)) @ afterOf regs"
  using assms
proof (induction regs arbitrary: h)
  case Nil
  then show ?case by simp
next
  case (Cons x regs)
  from register_stages[OF Cons.prems, of x] Cons.IH[of "register c x h"]
  have "stagesValid (fold (register c) regs (register c x h)) c" and
    "elems (requestMiddlewareArrays (fold (register c) regs (register c x h)))
          (udBeforeRequest (clients (fold (register c) regs (register c x h)) c))
        = (elems (requestMiddlewareArrays h) (udBeforeRequest (clients h c)) @ beforeOf [x]) @ beforeOf regs"
    and "elems (requestMiddlewareArrays (fold (register c) regs (register c x h)))
          (beforeRequest (clients (fold (register c) regs (register c x h)) c))
        = elems (requestMiddlewareArrays h) (beforeRequest (clients h c))"
    and "elems (responseMiddlewareArrays (fold (register c) regs (register c x h)))
          (afterResponse (clients (fold (register c) regs (register c x h)) c))
        = (elems (responseMiddlewareArrays h) (afterResponse (clients h c)) @ afterOf [x]) @ afterOf regs"
    by simp_all
  moreover have "beforeOf (x # regs) = beforeOf [x] @ beforeOf regs"
    "afterOf (x # regs) = afterOf [x] @ afterOf regs"
    using beforeOf_append[of "[x]" regs] afterOf_append[of "[x]" regs] by simp_all
  ultimately show ?case by simp
qed

lemma registeredHeap_client:
  "clients registeredHeap 6 = (clients exampleHeap 6)\<lparr>udBeforeRequest := Slice 7 1, afterResponse := Slice 8 3\<rparr>"
  "requestMiddlewareArrays registeredHeap 7 = Backing 1 [UserRequestMiddleware 7]"
  "requestMiddlewareArrays registeredHeap 4 = Backing 4 [parseRequestURL, parseRequestHeader, parseRequestCookie, parseRequestBody]"
  "responseMiddlewareArrays registeredHeap 8 = Backing 4 [parseResponseBody, handleDownload, UserResponseMiddleware 8]"
  by (simp_all add: registeredHeap_def OnBeforeRequest_def OnAfterResponse_def appendSlice_def
      exampleHeap_client zeroClient_def growCap_def elems_def)

lemma do_example:
  "do exampleStdlib (recording exampleCollaborators) 6 (Client_R (Some 6)) registeredHeap ((), [])
    = Return (\<lparr>respRequest = Some exampleSent, respResponse = Some exampleResponse, body = Some ''ok''\<rparr>,
        None, exampleSent, registeredHeap, ((),
        [EvBefore (UserRequestMiddleware 7), EvBefore parseRequestURL, EvBefore parseRequestHeader,
         EvBefore parseRequestCookie, EvBefore parseRequestBody, EvDispatch,
         EvAfter parseResponseBody, EvAfter handleDownload, EvAfter (UserResponseMiddleware 8)]))"
  by (simp add: do_def dispatch_def deliver_def runAfterResponse_def registeredHeap_client
      exampleHeap_client zeroClient_def elems_def Client_R_def recording_def exampleCollaborators_def
      setupRequest_def setTrace_def setRequestHeaderAndCookie_def setRequestURL_def exampleStdlib_def
      removeEmptyPort_def exampleSent_def exampleResponse_def Let_def)

text \<open>
  C2. Run with recording doubles, the calls of \<^verbatim>\<open>do\<close> are an initial part of: the
  request middleware of \<^verbatim>\<open>udBeforeRequest\<close> in order, then those of
  \<^verbatim>\<open>beforeRequest\<close> in order, then the exchange, then the response middleware of
  \<^verbatim>\<open>afterResponse\<close> in order; and all of it when \<^verbatim>\<open>do\<close> returns no error.
  For a client made by \<^verbatim>\<open>C()\<close> and any registrations, \<^verbatim>\<open>udBeforeRequest\<close> holds
  what the user registered with \<^verbatim>\<open>OnBeforeRequest\<close>, in that order,
  \<^verbatim>\<open>beforeRequest\<close> the four built-in request middleware, and \<^verbatim>\<open>afterResponse\<close>
  the two built-in response middleware followed by what the user registered with
  \<^verbatim>\<open>OnAfterResponse\<close>, in that order. So every request middleware of the user runs
  before every built-in one, and every built-in response middleware before every one of the
  user.
\<close>

theorem do_stage_order:
  assumes run: "do L (recording E) c r h (w, []) = Return (resp, err, r', h', (w', evs))"
    and cl: "client r = Some rc"
    and keep: "\<forall>m q v. client (fst (snd (requestStage E m q v))) = client q"
  shows "prefix evs
           (map EvBefore (elems (requestMiddlewareArrays h) (udBeforeRequest (clients h rc))
                          @ elems (requestMiddlewareArrays h) (beforeRequest (clients h rc)))
            @ [EvDispatch]
            @ map EvAfter (elems (responseMiddlewareArrays h) (afterResponse (clients h rc))))
       \<and> (err = None \<longrightarrow> evs =
            map EvBefore (elems (requestMiddlewareArrays h) (udBeforeRequest (clients h rc))
                          @ elems (requestMiddlewareArrays h) (beforeRequest (clients h rc)))
            @ [EvDispatch]
            @ map EvAfter (elems (responseMiddlewareArrays h) (afterResponse (clients h rc))))
       \<and> (\<forall>h0 h1 regs. C h0 = (rc, h1) \<and> h = fold (register rc) regs h1 \<longrightarrow>
            elems (requestMiddlewareArrays h) (udBeforeRequest (clients h rc)) = beforeOf regs
            \<and> elems (requestMiddlewareArrays h) (beforeRequest (clients h rc)) =
                [parseRequestURL, parseRequestHeader, parseRequestCookie, parseRequestBody]
            \<and> elems (responseMiddlewareArrays h) (afterResponse (clients h rc)) =
                [parseResponseBody, handleDownload] @ afterOf regs)"
proof (intro conjI allI impI)
  from do_events[OF run cl keep refl refl refl]
  show "prefix evs
           (map EvBefore (elems (requestMiddlewareArrays h) (udBeforeRequest (clients h rc))
                          @ elems (requestMiddlewareArrays h) (beforeRequest (clients h rc)))
            @ [EvDispatch]
            @ map EvAfter (elems (responseMiddlewareArrays h) (afterResponse (clients h rc))))"
    by blast
next
  assume "err = None"
  with do_events[OF run cl keep refl refl refl]
  show "evs =
            map EvBefore (elems (requestMiddlewareArrays h) (udBeforeRequest (clients h rc))
                          @ elems (requestMiddlewareArrays h) (beforeRequest (clients h rc)))
            @ [EvDispatch]
            @ map EvAfter (elems (responseMiddlewareArrays h) (afterResponse (clients h rc)))"
    by blast
next
  fix h0 h1 regs
  assume a: "C h0 = (rc, h1) \<and> h = fold (register rc) regs h1"
  from registrations_stages[OF C_stages(1), of h0 rc h1 regs] C_stages(2-4)[of h0 rc h1] a
  have b: "elems (requestMiddlewareArrays h) (udBeforeRequest (clients h rc)) = beforeOf regs
            \<and> elems (requestMiddlewareArrays h) (beforeRequest (clients h rc)) =
                [parseRequestURL, parseRequestHeader, parseRequestCookie, parseRequestBody]
            \<and> elems (responseMiddlewareArrays h) (afterResponse (clients h rc)) =
                [parseResponseBody, handleDownload] @ afterOf regs"
    by simp
  from b show "elems (requestMiddlewareArrays h) (udBeforeRequest (clients h rc)) = beforeOf regs"
    by blast
  from b show "elems (requestMiddlewareArrays h) (beforeRequest (clients h rc)) =
                [parseRequestURL, parseRequestHeader, parseRequestCookie, parseRequestBody]"
    by blast
  from b show "elems (responseMiddlewareArrays h) (afterResponse (clients h rc)) =
                [parseResponseBody, handleDownload] @ afterOf regs"
    by blast
qed

theorem do_stage_order_witness:
  "client (Client_R (Some 6)) = Some 6
   \<and> (\<forall>m q v. client (fst (snd (requestStage exampleCollaborators m q v))) = client q)
   \<and> do exampleStdlib (recording exampleCollaborators) 6 (Client_R (Some 6)) registeredHeap ((), [])
      = Return (\<lparr>respRequest = Some exampleSent, respResponse = Some exampleResponse,
                 body = Some ''ok''\<rparr>,
        None, exampleSent, registeredHeap, ((),
        [EvBefore (UserRequestMiddleware 7), EvBefore parseRequestURL, EvBefore parseRequestHeader,
         EvBefore parseRequestCookie, EvBefore parseRequestBody, EvDispatch,
         EvAfter parseResponseBody, EvAfter handleDownload, EvAfter (UserResponseMiddleware 8)]))
   \<and> prefix
        [EvBefore (UserRequestMiddleware 7), EvBefore parseRequestURL, EvBefore parseRequestHeader,
         EvBefore parseRequestCookie, EvBefore parseRequestBody, EvDispatch,
         EvAfter parseResponseBody, EvAfter handleDownload, EvAfter (UserResponseMiddleware 8)]
        (map EvBefore (beforeOf [Before (UserRequestMiddleware 7), After (UserResponseMiddleware 8)]
                       @ [parseRequestURL, parseRequestHeader, parseRequestCookie, parseRequestBody])
         @ [EvDispatch]
         @ map EvAfter ([parseResponseBody, handleDownload]
                        @ afterOf [Before (UserRequestMiddleware 7), After (UserResponseMiddleware 8)]))"
proof -
  have cl: "client (Client_R (Some 6)) = Some 6" by (simp add: Client_R_def)
  note t = do_stage_order[OF do_example cl example_keeps_client]
  have "C emptyHeap = (6, exampleHeap) \<and>
      registeredHeap = fold (register 6)
        [Before (UserRequestMiddleware 7), After (UserResponseMiddleware 8)] exampleHeap"
    by (simp add: C_emptyHeap registeredHeap_def)
  with t have lists:
    "elems (requestMiddlewareArrays registeredHeap) (udBeforeRequest (clients registeredHeap 6))
       = beforeOf [Before (UserRequestMiddleware 7), After (UserResponseMiddleware 8)]"
    "elems (requestMiddlewareArrays registeredHeap) (beforeRequest (clients registeredHeap 6))
       = [parseRequestURL, parseRequestHeader, parseRequestCookie, parseRequestBody]"
    "elems (responseMiddlewareArrays registeredHeap) (afterResponse (clients registeredHeap 6))
       = [parseResponseBody, handleDownload]
         @ afterOf [Before (UserRequestMiddleware 7), After (UserResponseMiddleware 8)]"
    by blast+
  from t have "prefix
        [EvBefore (UserRequestMiddleware 7), EvBefore parseRequestURL, EvBefore parseRequestHeader,
         EvBefore parseRequestCookie, EvBefore parseRequestBody, EvDispatch,
         EvAfter parseResponseBody, EvAfter handleDownload, EvAfter (UserResponseMiddleware 8)]
        (map EvBefore (elems (requestMiddlewareArrays registeredHeap) (udBeforeRequest (clients registeredHeap 6))
                       @ elems (requestMiddlewareArrays registeredHeap) (beforeRequest (clients registeredHeap 6)))
         @ [EvDispatch]
         @ map EvAfter (elems (responseMiddlewareArrays registeredHeap) (afterResponse (clients registeredHeap 6))))"
    by blast
  with lists cl example_keeps_client do_example show ?thesis by simp
qed


subsection \<open>Reading the body\<close>








section \<open>Theorems: clone\<close>

lemma threeStagesHeap_facts:
  "nextAddr threeStagesHeap = 10"
  "clients threeStagesHeap 6 = (clients exampleHeap 6)\<lparr>udBeforeRequest := Slice 9 3\<rparr>"
  "requestMiddlewareArrays threeStagesHeap 9 =
     Backing 4 [UserRequestMiddleware 1, UserRequestMiddleware 2, UserRequestMiddleware 3]"
  "requestMiddlewareArrays threeStagesHeap 4 =
     Backing 4 [parseRequestURL, parseRequestHeader, parseRequestCookie, parseRequestBody]"
  "responseMiddlewareArrays threeStagesHeap 5 = Backing 2 [parseResponseBody, handleDownload]"
  "transports threeStagesHeap 0 = \<lparr>TProxy = Some ProxyFromEnvironment, TLSClientConfig = None,
                     DisableKeepAlives = False, DisableCompression = False, dump = None\<rparr>"
  by (simp_all add: threeStagesHeap_def OnBeforeRequest_def appendSlice_def
      exampleHeap_client zeroClient_def growCap_def elems_def exampleHeap_def C_def Let_def emptyHeap_def)

lemma Clone2_three:
  "Clone2 exampleStdlib 6 threeStagesHeap = Return (13, clonedHeap2)"
  by (simp add: Clone2_def clonedHeap2_def threeStagesHeap_facts exampleHeap_client zeroClient_def
      Transport_Clone_def http2ConfigureTransports_def alloc_def DumpOptions_Clone_def
      cloneHeaders_def cloneMap_def cloneUrlValues_def)

lemma clonedHeap2_facts:
  "nextAddr clonedHeap2 = 14"
  "udBeforeRequest (clients clonedHeap2 13) = Slice 9 3"
  "udBeforeRequest (clients clonedHeap2 6) = Slice 9 3"
  "requestMiddlewareArrays clonedHeap2 9 =
     Backing 4 [UserRequestMiddleware 1, UserRequestMiddleware 2, UserRequestMiddleware 3]"
  by (simp_all add: Clone2_def clonedHeap2_def threeStagesHeap_facts exampleHeap_client zeroClient_def
      Transport_Clone_def http2ConfigureTransports_def alloc_def DumpOptions_Clone_def
      cloneHeaders_def cloneMap_def cloneUrlValues_def)


text \<open>
  C1. The claim: after \<^verbatim>\<open>cc := c.Clone()\<close>, a change of a collection of one client is
  not seen through the other. \<^verbatim>\<open>Clone\<close> of lines 2060-2081 breaks it for the user's
  request middleware: it stores the slice \<^verbatim>\<open>c.udBeforeRequest\<close> itself in the clone.
  On a client with three registered middleware (length 3, capacity 4), after
  \<^verbatim>\<open>cc.OnBeforeRequest(m4)\<close> the clone holds 1, 2, 3, 4; then
  \<^verbatim>\<open>c.OnBeforeRequest(m5)\<close>, a change of \<open>c\<close> only, writes cell 3 of the shared
  array, and the clone holds 1, 2, 3, 5.
\<close>

theorem Clone2_shares_stages:
  "Clone2 exampleStdlib 6 threeStagesHeap = Return (13, clonedHeap2)
   \<and> userRequestMiddleware clonedHeap2 13
       = [UserRequestMiddleware 1, UserRequestMiddleware 2, UserRequestMiddleware 3]
   \<and> userRequestMiddleware (snd (OnBeforeRequest 13 (UserRequestMiddleware 4) clonedHeap2)) 13
       = [UserRequestMiddleware 1, UserRequestMiddleware 2, UserRequestMiddleware 3,
          UserRequestMiddleware 4]
   \<and> userRequestMiddleware
         (snd (OnBeforeRequest 6 (UserRequestMiddleware 5)
                (snd (OnBeforeRequest 13 (UserRequestMiddleware 4) clonedHeap2)))) 13
       = [UserRequestMiddleware 1, UserRequestMiddleware 2, UserRequestMiddleware 3,
          UserRequestMiddleware 5]"
  by (simp add: Clone2_three userRequestMiddleware_def OnBeforeRequest_def appendSlice_def
      clonedHeap2_facts elems_def)


text \<open>
  \<^verbatim>\<open>Clone\<close> of lines 1039-1067 copies the list (\<^verbatim>\<open>cloneRequestMiddleware\<close>): on
  the same input the clone still holds 1, 2, 3, 4 after the change of \<open>c\<close>.
\<close>

lemma Clone_three:
  "Clone exampleStdlib 6 threeStagesHeap = Return (13, clonedHeap)"
  by (simp add: Clone_def clonedHeap_def threeStagesHeap_facts exampleHeap_client zeroClient_def
      Transport_Clone_def http2ConfigureTransports_def alloc_def DumpOptions_Clone_def
      cloneHeaders_def cloneMap_def cloneUrlValues_def cloneCookies_def cloneRequestMiddleware_def
      cloneResponseMiddleware_def makeCopy_def len_def elems_def)

lemma clonedHeap_facts:
  "nextAddr clonedHeap = 17"
  "udBeforeRequest (clients clonedHeap 13) = Slice 15 3"
  "udBeforeRequest (clients clonedHeap 6) = Slice 9 3"
  "requestMiddlewareArrays clonedHeap 9 =
     Backing 4 [UserRequestMiddleware 1, UserRequestMiddleware 2, UserRequestMiddleware 3]"
  "requestMiddlewareArrays clonedHeap 15 =
     Backing 3 [UserRequestMiddleware 1, UserRequestMiddleware 2, UserRequestMiddleware 3]"
  by (simp_all add: Clone_def clonedHeap_def threeStagesHeap_facts exampleHeap_client zeroClient_def
      Transport_Clone_def http2ConfigureTransports_def alloc_def DumpOptions_Clone_def
      cloneHeaders_def cloneMap_def cloneUrlValues_def cloneCookies_def cloneRequestMiddleware_def
      cloneResponseMiddleware_def makeCopy_def len_def elems_def)

lemma Clone_keeps_stages_example:
  "userRequestMiddleware
         (snd (OnBeforeRequest 6 (UserRequestMiddleware 5)
                (snd (OnBeforeRequest 13 (UserRequestMiddleware 4) clonedHeap)))) 13
       = [UserRequestMiddleware 1, UserRequestMiddleware 2, UserRequestMiddleware 3,
          UserRequestMiddleware 4]"
  by (simp add: userRequestMiddleware_def OnBeforeRequest_def appendSlice_def
      clonedHeap_facts elems_def growCap_def)


end
